theory Spec2Isabelle
  imports Main
begin

section \<open>Values held by the connection store\<close>

text \<open>
  \<^verbatim>\<open>ConnectionManager.data\<close> is a Python \<^verbatim>\<open>dict[str, Any]\<close> that \<^verbatim>\<open>loadConfig\<close>
  fills from a JSON file, so its members are whatever the file holds. A value is modelled
  as the JSON value it is: \<^verbatim>\<open>None\<close>, a bool, an int, a str, a list, or a dict
  with str keys in insertion order. Fractional numbers are not modelled. An association
  list stands for a dict when its keys are distinct; the dict operations below keep them so.
\<close>

datatype json =
    JNull
  | JBool bool
  | JInt int
  | JStr string
  | JArr "json list"
  | JObj "(string \<times> json) list"

text \<open>The exceptions that the modelled code can raise.\<close>

datatype pyerror =
  KeyError | TypeError | AttributeError | ValueError | UnicodeDecodeError | RecursionError

subsection \<open>Dicts as insertion-ordered association lists\<close>

definition has_key :: "(string \<times> 'v) list \<Rightarrow> string \<Rightarrow> bool" where
  "has_key kvs k = (k \<in> set (map fst kvs))"

text \<open>\<^verbatim>\<open>d[k] = v\<close>: an existing key keeps its position, a new key goes last.\<close>

fun setitem :: "(string \<times> 'v) list \<Rightarrow> string \<Rightarrow> 'v \<Rightarrow> (string \<times> 'v) list" where
  "setitem [] k v = [(k, v)]"
| "setitem ((k', v') # kvs) k v =
     (if k' = k then (k', v) # kvs else (k', v') # setitem kvs k v)"

text \<open>\<^verbatim>\<open>del d[k]\<close> on a dict that has the key.\<close>

definition delitem :: "(string \<times> 'v) list \<Rightarrow> string \<Rightarrow> (string \<times> 'v) list" where
  "delitem kvs k = filter (\<lambda>kv. fst kv \<noteq> k) kvs"

text \<open>\<^verbatim>\<open>d.update(other)\<close> for a dict \<^verbatim>\<open>other\<close>: its items are stored one by one.\<close>

fun dict_update :: "(string \<times> 'v) list \<Rightarrow> (string \<times> 'v) list \<Rightarrow> (string \<times> 'v) list" where
  "dict_update d [] = d"
| "dict_update d ((k, v) # kvs) = dict_update (setitem d k v) kvs"

subsection \<open>Python's operators on a value of unknown shape\<close>

text \<open>\<^verbatim>\<open>s in t\<close> for two strs: \<^verbatim>\<open>s\<close> occurs in \<^verbatim>\<open>t\<close> as a contiguous run.\<close>

fun is_substr :: "string \<Rightarrow> string \<Rightarrow> bool" where
  "is_substr s [] = (s = [])"
| "is_substr s (c # cs) = (take (length s) (c # cs) = s \<or> is_substr s cs)"

text \<open>
  \<^verbatim>\<open>k in x\<close> for a str \<^verbatim>\<open>k\<close>: key membership in a dict, element membership in
  a list (a str equals only an equal str), substring test in a str; \<^verbatim>\<open>None\<close>, bools
  and ints are not iterable.
\<close>

fun py_contains :: "json \<Rightarrow> string \<Rightarrow> pyerror + bool" where
  "py_contains (JObj kvs) k = Inr (has_key kvs k)"
| "py_contains (JArr xs) k = Inr (JStr k \<in> set xs)"
| "py_contains (JStr t) k = Inr (is_substr k t)"
| "py_contains _ k = Inl TypeError"

text \<open>
  \<^verbatim>\<open>x[k]\<close> for a str \<^verbatim>\<open>k\<close>: a dict looks the key up; a list and a str take
  integer indices only, the other values are not subscriptable.
\<close>

fun py_getitem :: "json \<Rightarrow> string \<Rightarrow> pyerror + json" where
  "py_getitem (JObj kvs) k = (case map_of kvs k of None \<Rightarrow> Inl KeyError | Some v \<Rightarrow> Inr v)"
| "py_getitem _ k = Inl TypeError"

text \<open>\<^verbatim>\<open>x[k] = v\<close> for a str \<^verbatim>\<open>k\<close>.\<close>

fun py_setitem :: "json \<Rightarrow> string \<Rightarrow> json \<Rightarrow> pyerror + json" where
  "py_setitem (JObj kvs) k v = Inr (JObj (setitem kvs k v))"
| "py_setitem _ k v = Inl TypeError"

text \<open>\<^verbatim>\<open>del x[k]\<close> for a str \<^verbatim>\<open>k\<close>.\<close>

fun py_delitem :: "json \<Rightarrow> string \<Rightarrow> pyerror + json" where
  "py_delitem (JObj kvs) k = (if has_key kvs k then Inr (JObj (delitem kvs k)) else Inl KeyError)"
| "py_delitem _ k = Inl TypeError"

text \<open>
  \<^verbatim>\<open>x.pop(k)\<close> for a str \<^verbatim>\<open>k\<close>: the value and the dict without the key. A list
  has \<^verbatim>\<open>pop\<close> but wants an integer; the other values have no such attribute.
\<close>

fun py_pop :: "json \<Rightarrow> string \<Rightarrow> pyerror + (json \<times> json)" where
  "py_pop (JObj kvs) k =
     (case map_of kvs k of None \<Rightarrow> Inl KeyError | Some v \<Rightarrow> Inr (v, JObj (delitem kvs k)))"
| "py_pop (JArr xs) k = Inl TypeError"
| "py_pop _ k = Inl AttributeError"

text \<open>Iterating a value: a list yields its elements, a dict its keys, a str its characters.\<close>

fun py_iter :: "json \<Rightarrow> pyerror + json list" where
  "py_iter (JArr xs) = Inr xs"
| "py_iter (JObj kvs) = Inr (map (\<lambda>kv. JStr (fst kv)) kvs)"
| "py_iter (JStr s) = Inr (map (\<lambda>c. JStr [c]) s)"
| "py_iter _ = Inl TypeError"

text \<open>\<^verbatim>\<open>list(x.keys())\<close>, \<^verbatim>\<open>x.get(k, [])\<close>, \<^verbatim>\<open>x.append(v)\<close> and \<^verbatim>\<open>x.extend(it)\<close>.\<close>

fun py_keys :: "json \<Rightarrow> pyerror + string list" where
  "py_keys (JObj kvs) = Inr (map fst kvs)"
| "py_keys _ = Inl AttributeError"

fun py_get :: "json \<Rightarrow> string \<Rightarrow> json \<Rightarrow> pyerror + json" where
  "py_get (JObj kvs) k dflt = (case map_of kvs k of None \<Rightarrow> Inr dflt | Some v \<Rightarrow> Inr v)"
| "py_get _ k dflt = Inl AttributeError"

fun py_append :: "json \<Rightarrow> json \<Rightarrow> pyerror + json" where
  "py_append (JArr xs) v = Inr (JArr (xs @ [v]))"
| "py_append _ v = Inl AttributeError"

fun py_extend :: "json \<Rightarrow> json \<Rightarrow> pyerror + json" where
  "py_extend (JArr xs) it = (case py_iter it of Inl e \<Rightarrow> Inl e | Inr ys \<Rightarrow> Inr (JArr (xs @ ys)))"
| "py_extend _ it = Inl AttributeError"

section \<open>ConnectionManager: the store and its file\<close>

text \<open>
  \<^verbatim>\<open>self.data\<close> starts as the skeleton of \<^verbatim>\<open>_getDefaultData\<close> and no code removes
  a top-level key, so the three skeleton keys are always there, in the skeleton's order:
  they are the fields of a record. \<open>extras\<close> holds, in insertion order, the other
  top-level keys that a loaded document brought in.
\<close>

record pydata =
  active_group :: json
  close_on_connect :: json
  groups :: json
  extras :: "(string \<times> json) list"

definition DEFAULT_GROUP :: string where
  "DEFAULT_GROUP = ''Default''"

definition getDefaultData :: pydata where
  "getDefaultData =
     \<lparr>active_group = JStr DEFAULT_GROUP, close_on_connect = JBool True,
      groups = JObj [(DEFAULT_GROUP, JArr [])], extras = []\<rparr>"

text \<open>\<^verbatim>\<open>self.data[k] = v\<close> and \<^verbatim>\<open>self.data.update(loaded)\<close> for a dict \<^verbatim>\<open>loaded\<close>.\<close>

definition data_setitem :: "pydata \<Rightarrow> string \<Rightarrow> json \<Rightarrow> pydata" where
  "data_setitem d k v =
     (if k = ''active_group'' then d\<lparr>active_group := v\<rparr>
      else if k = ''close_on_connect'' then d\<lparr>close_on_connect := v\<rparr>
      else if k = ''groups'' then d\<lparr>groups := v\<rparr>
      else d\<lparr>extras := setitem (extras d) k v\<rparr>)"

fun update_data :: "pydata \<Rightarrow> (string \<times> json) list \<Rightarrow> pydata" where
  "update_data d [] = d"
| "update_data d ((k, v) # kvs) = update_data (data_setitem d k v) kvs"

text \<open>The dict \<^verbatim>\<open>self.data\<close> as \<^verbatim>\<open>json.dump\<close> walks it.\<close>

definition data_items :: "pydata \<Rightarrow> (string \<times> json) list" where
  "data_items d =
     (''active_group'', active_group d) # (''close_on_connect'', close_on_connect d) #
     (''groups'', groups d) # extras d"

text \<open>
  What \<^verbatim>\<open>loadConfig\<close> meets at \<^verbatim>\<open>self._configPath\<close>, told apart by what
  \<^verbatim>\<open>os.path.exists\<close>, \<^verbatim>\<open>open\<close> and \<^verbatim>\<open>json.load\<close> do with it:
  \<^item> \<open>Missing\<close>: there is no file;
  \<^item> \<open>Unreadable\<close>: \<^verbatim>\<open>open\<close> or the read fails with \<^verbatim>\<open>OSError\<close>;
  \<^item> \<open>Undecodable\<close>: the bytes are not UTF-8, and the read raises
    \<^verbatim>\<open>UnicodeDecodeError\<close>, a \<^verbatim>\<open>ValueError\<close> that is no \<^verbatim>\<open>JSONDecodeError\<close>;
  \<^item> \<open>Malformed\<close>: the text is not JSON, and \<^verbatim>\<open>json.load\<close> raises
    \<^verbatim>\<open>json.JSONDecodeError\<close>;
  \<^item> \<open>TooManyDigits\<close>: the text is JSON with an integer literal longer than the
    interpreter's limit on int conversion (4300 digits), and \<^verbatim>\<open>json.load\<close> raises a
    plain \<^verbatim>\<open>ValueError\<close>;
  \<^item> \<open>TooDeep\<close>: the text is JSON nested deeper than the interpreter's recursion
    limit, and \<^verbatim>\<open>json.load\<close> raises \<^verbatim>\<open>RecursionError\<close>;
  \<^item> \<open>Document loaded\<close>: \<^verbatim>\<open>json.load\<close> returns the dict \<open>loaded\<close>.
  So a file whose text is a JSON object is a \<open>Document\<close> only when the parser gets
  through it. \<^verbatim>\<open>json.dump\<close> and \<^verbatim>\<open>json.load\<close> are the standard library's: the file
  is modelled by what the parser makes of it, not by its text. A file for which
  \<^verbatim>\<open>json.load\<close> returns a value that is not a dict is outside the model.
\<close>

datatype file_state =
    Missing
  | Unreadable
  | Undecodable
  | Malformed
  | TooManyDigits
  | TooDeep
  | Document "(string \<times> json) list"

text \<open>
  \<^verbatim>\<open>loadConfig\<close> returns the exception that reaches the caller, if any, and
  \<^verbatim>\<open>self.data\<close> as it then is. The \<^verbatim>\<open>except\<close> clause catches \<^verbatim>\<open>OSError\<close> and
  \<^verbatim>\<open>json.JSONDecodeError\<close> only; the other exceptions of the read and of the parser
  pass through it, before \<^verbatim>\<open>self.data\<close> has been touched.
\<close>

definition loadConfig :: "file_state \<Rightarrow> pydata \<Rightarrow> pyerror option \<times> pydata" where
  "loadConfig f d =
     (case f of
        Missing \<Rightarrow> (None, d)
      | Unreadable \<Rightarrow> (None, d)
      | Malformed \<Rightarrow> (None, d)
      | Undecodable \<Rightarrow> (Some UnicodeDecodeError, d)
      | TooManyDigits \<Rightarrow> (Some ValueError, d)
      | TooDeep \<Rightarrow> (Some RecursionError, d)
      | Document loaded \<Rightarrow>
          (let d1 = update_data d loaded in
           case py_contains (groups d1) DEFAULT_GROUP of
             Inl e \<Rightarrow> (Some e, d1)
           | Inr True \<Rightarrow> (None, d1)
           | Inr False \<Rightarrow>
               (case py_setitem (groups d1) DEFAULT_GROUP (JArr []) of
                  Inl e \<Rightarrow> (Some e, d1)
                | Inr g \<Rightarrow> (None, d1\<lparr>groups := g\<rparr>))))"

text \<open>
  The manager owns \<^verbatim>\<open>self.data\<close> and the file at \<^verbatim>\<open>self._configPath\<close>.
  \<^verbatim>\<open>saveConfig\<close> writes a temporary file and renames it over the target; \<open>ok\<close>
  says that no \<^verbatim>\<open>OSError\<close> occurred on the way. On an \<^verbatim>\<open>OSError\<close> the target file
  is as before. A file that \<^verbatim>\<open>json.dump\<close> has written is one from which
  \<^verbatim>\<open>json.load\<close> returns the dict written.
\<close>

record manager =
  data :: pydata
  disk :: file_state

definition saveConfig :: "bool \<Rightarrow> manager \<Rightarrow> manager" where
  "saveConfig ok m = (if ok then m\<lparr>disk := Document (data_items (data m))\<rparr> else m)"

subsection \<open>Group and connection operations\<close>

text \<open>
  An operation returns \<open>Inl e\<close> when exception \<open>e\<close> reaches the caller; every raise
  below happens before the operation has changed \<^verbatim>\<open>self.data\<close>, so the manager is then
  as it was. \<open>Inr\<close> carries the return value and the manager afterwards. The first
  argument \<open>ok\<close> is the outcome of the \<^verbatim>\<open>saveConfig\<close> call the operation makes.
\<close>

definition raise_or :: "pyerror + 'a \<Rightarrow> ('a \<Rightarrow> pyerror + 'b) \<Rightarrow> pyerror + 'b" where
  "raise_or r f = (case r of Inl e \<Rightarrow> Inl e | Inr x \<Rightarrow> f x)"

definition set_groups :: "manager \<Rightarrow> json \<Rightarrow> manager" where
  "set_groups m g = m\<lparr>data := (data m)\<lparr>groups := g\<rparr>\<rparr>"

definition setCloseOnConnect :: "bool \<Rightarrow> bool \<Rightarrow> manager \<Rightarrow> manager" where
  "setCloseOnConnect ok val m =
     saveConfig ok (m\<lparr>data := (data m)\<lparr>close_on_connect := JBool val\<rparr>\<rparr>)"

definition getGroups :: "manager \<Rightarrow> pyerror + string list" where
  "getGroups m = py_keys (groups (data m))"

definition setActiveGroup :: "bool \<Rightarrow> string \<Rightarrow> manager \<Rightarrow> pyerror + manager" where
  "setActiveGroup ok groupName m =
     raise_or (py_contains (groups (data m)) groupName) (\<lambda>present.
       if present
       then Inr (saveConfig ok (m\<lparr>data := (data m)\<lparr>active_group := JStr groupName\<rparr>\<rparr>))
       else Inr m)"

definition createGroup :: "bool \<Rightarrow> string \<Rightarrow> manager \<Rightarrow> pyerror + (bool \<times> manager)" where
  "createGroup ok groupName m =
     raise_or (py_contains (groups (data m)) groupName) (\<lambda>present.
       if present then Inr (False, m)
       else raise_or (py_setitem (groups (data m)) groupName (JArr [])) (\<lambda>g.
         Inr (True, saveConfig ok (set_groups m g))))"

text \<open>
  \<^verbatim>\<open>self.data["groups"][newName] = self.data["groups"].pop(oldName)\<close>: the right-hand
  side runs first, so the old key is gone when the new one is stored.
\<close>

definition renameGroup :: "bool \<Rightarrow> string \<Rightarrow> string \<Rightarrow> manager \<Rightarrow> pyerror + (bool \<times> manager)" where
  "renameGroup ok oldName newName m =
     (if oldName = DEFAULT_GROUP then Inr (False, m)
      else raise_or (py_contains (groups (data m)) oldName) (\<lambda>hasOld.
        if \<not> hasOld then Inr (False, m)
        else raise_or (py_contains (groups (data m)) newName) (\<lambda>hasNew.
          if hasNew then Inr (False, m)
          else raise_or (py_pop (groups (data m)) oldName) (\<lambda>(v, g1).
            raise_or (py_setitem g1 newName v) (\<lambda>g2.
              Inr (True, saveConfig ok (m\<lparr>data := (data m)
                \<lparr>groups := g2,
                 active_group := (if active_group (data m) = JStr oldName then JStr newName
                                  else active_group (data m))\<rparr>\<rparr>)))))))"

text \<open>
  \<^verbatim>\<open>extend\<close> changes the default group's list in place; the model stores the longer
  list back under the same key. The two lists are different objects, as every list in the
  store is created by \<^verbatim>\<open>json.load\<close> or by \<^verbatim>\<open>createGroup\<close>.
\<close>

definition deleteGroup :: "bool \<Rightarrow> string \<Rightarrow> bool \<Rightarrow> manager \<Rightarrow> pyerror + (bool \<times> manager)" where
  "deleteGroup ok groupName moveItemsToDefault m =
     (if groupName = DEFAULT_GROUP then Inr (False, m)
      else raise_or (py_contains (groups (data m)) groupName) (\<lambda>present.
        if \<not> present then Inr (False, m)
        else raise_or
          (if moveItemsToDefault
           then raise_or (py_getitem (groups (data m)) groupName) (\<lambda>items.
                  raise_or (py_getitem (groups (data m)) DEFAULT_GROUP) (\<lambda>dflt.
                    raise_or (py_extend dflt items) (\<lambda>dflt'.
                      py_setitem (groups (data m)) DEFAULT_GROUP dflt')))
           else Inr (groups (data m))) (\<lambda>g1.
          raise_or (py_delitem g1 groupName) (\<lambda>g2.
            Inr (True, saveConfig ok (m\<lparr>data := (data m)
              \<lparr>groups := g2,
               active_group := (if active_group (data m) = JStr groupName then JStr DEFAULT_GROUP
                                else active_group (data m))\<rparr>\<rparr>))))))"

definition getConnections :: "string \<Rightarrow> manager \<Rightarrow> pyerror + json" where
  "getConnections groupName m = py_get (groups (data m)) groupName (JArr [])"

text \<open>
  \<open>newId\<close> is the string \<^verbatim>\<open>str(uuid.uuid4())\<close> produced for this call; the other
  arguments have the types of the signature.
\<close>

definition addConnection ::
  "bool \<Rightarrow> string \<Rightarrow> string \<Rightarrow> string \<Rightarrow> string \<Rightarrow> string \<Rightarrow> int \<Rightarrow> string \<Rightarrow> bool \<Rightarrow> manager
   \<Rightarrow> pyerror + (string option \<times> manager)" where
  "addConnection ok newId groupName nm hst ky prt md selfHosted m =
     raise_or (py_contains (groups (data m)) groupName) (\<lambda>present.
       if \<not> present then Inr (None, m)
       else raise_or (py_getitem (groups (data m)) groupName) (\<lambda>connections.
         raise_or (py_append connections
             (JObj [(''id'', JStr newId), (''name'', JStr nm), (''host'', JStr hst),
                    (''key'', JStr ky), (''port'', JInt prt), (''mode'', JStr md),
                    (''selfHosted'', JBool selfHosted)])) (\<lambda>connections'.
           raise_or (py_setitem (groups (data m)) groupName connections') (\<lambda>g.
             Inr (Some newId, saveConfig ok (set_groups m g))))))"

text \<open>
  The index of the first connection whose \<^verbatim>\<open>conn["id"] == connId\<close>; the connections
  before it are subscripted on the way, and none after it.
\<close>

fun find_conn :: "json list \<Rightarrow> string \<Rightarrow> pyerror + nat option" where
  "find_conn [] connId = Inr None"
| "find_conn (c # cs) connId =
     raise_or (py_getitem c ''id'') (\<lambda>v.
       if v = JStr connId then Inr (Some 0)
       else raise_or (find_conn cs connId) (\<lambda>r. Inr (map_option Suc r)))"

text \<open>\<^verbatim>\<open>conn.update(kwargs)\<close>.\<close>

fun py_update :: "json \<Rightarrow> (string \<times> json) list \<Rightarrow> pyerror + json" where
  "py_update (JObj kvs) kwargs = Inr (JObj (dict_update kvs kwargs))"
| "py_update _ kwargs = Inl AttributeError"

text \<open>
  In the three operations below a connection is found only in a list (iterating a dict or
  a str yields strs, which \<^verbatim>\<open>["id"]\<close> rejects), so the changed list is stored back as
  a list.
\<close>

definition updateConnection ::
  "bool \<Rightarrow> string \<Rightarrow> string \<Rightarrow> (string \<times> json) list \<Rightarrow> manager \<Rightarrow> pyerror + (bool \<times> manager)" where
  "updateConnection ok groupName connId kwargs m =
     raise_or (py_contains (groups (data m)) groupName) (\<lambda>present.
       if \<not> present then Inr (False, m)
       else raise_or (py_getitem (groups (data m)) groupName) (\<lambda>connections.
         raise_or (py_iter connections) (\<lambda>conns.
           raise_or (find_conn conns connId) (\<lambda>r.
             case r of
               None \<Rightarrow> Inr (False, m)
             | Some i \<Rightarrow>
                 raise_or (py_update (conns ! i) kwargs) (\<lambda>conn'.
                   raise_or (py_setitem (groups (data m)) groupName (JArr (conns[i := conn']))) (\<lambda>g.
                     Inr (True, saveConfig ok (set_groups m g))))))))"

definition deleteConnection ::
  "bool \<Rightarrow> string \<Rightarrow> string \<Rightarrow> manager \<Rightarrow> pyerror + (bool \<times> manager)" where
  "deleteConnection ok groupName connId m =
     raise_or (py_contains (groups (data m)) groupName) (\<lambda>present.
       if \<not> present then Inr (False, m)
       else raise_or (py_getitem (groups (data m)) groupName) (\<lambda>connections.
         raise_or (py_iter connections) (\<lambda>conns.
           raise_or (find_conn conns connId) (\<lambda>r.
             case r of
               None \<Rightarrow> Inr (False, m)
             | Some i \<Rightarrow>
                 raise_or (py_setitem (groups (data m)) groupName
                     (JArr (take i conns @ drop (Suc i) conns))) (\<lambda>g.
                   Inr (True, saveConfig ok (set_groups m g)))))))"

text \<open>
  \<^verbatim>\<open>connections[idx], connections[newIdx] = connections[newIdx], connections[idx]\<close>:
  both values are read before either position is written.
\<close>

definition moveConnection ::
  "bool \<Rightarrow> string \<Rightarrow> string \<Rightarrow> int \<Rightarrow> manager \<Rightarrow> pyerror + (bool \<times> manager)" where
  "moveConnection ok groupName connId direction m =
     raise_or (py_contains (groups (data m)) groupName) (\<lambda>present.
       if \<not> present then Inr (False, m)
       else raise_or (py_getitem (groups (data m)) groupName) (\<lambda>connections.
         raise_or (py_iter connections) (\<lambda>conns.
           raise_or (find_conn conns connId) (\<lambda>r.
             case r of
               None \<Rightarrow> Inr (False, m)
             | Some idx \<Rightarrow>
                 (let newIdx = int idx + direction in
                  if \<not> (0 \<le> newIdx \<and> newIdx < int (length conns)) then Inr (False, m)
                  else raise_or (py_setitem (groups (data m)) groupName
                      (JArr (conns[idx := conns ! nat newIdx, nat newIdx := conns ! idx]))) (\<lambda>g.
                    Inr (True, saveConfig ok (set_groups m g))))))))"

subsection \<open>Sequences of operations\<close>

datatype op =
    SetCloseOnConnect bool
  | SetActiveGroup string
  | CreateGroup string
  | RenameGroup string string
  | DeleteGroup string bool
  | AddConnection string string string string string int string bool
  | UpdateConnection string string "(string \<times> json) list"
  | DeleteConnection string string
  | MoveConnection string string int

fun step :: "bool \<Rightarrow> op \<Rightarrow> manager \<Rightarrow> pyerror + manager" where
  "step ok (SetCloseOnConnect v) m = Inr (setCloseOnConnect ok v m)"
| "step ok (SetActiveGroup g) m = setActiveGroup ok g m"
| "step ok (CreateGroup g) m = map_sum id snd (createGroup ok g m)"
| "step ok (RenameGroup old new) m = map_sum id snd (renameGroup ok old new m)"
| "step ok (DeleteGroup g mv) m = map_sum id snd (deleteGroup ok g mv m)"
| "step ok (AddConnection newId g nm hst ky prt md sh) m =
     map_sum id snd (addConnection ok newId g nm hst ky prt md sh m)"
| "step ok (UpdateConnection g cid kwargs) m = map_sum id snd (updateConnection ok g cid kwargs m)"
| "step ok (DeleteConnection g cid) m = map_sum id snd (deleteConnection ok g cid m)"
| "step ok (MoveConnection g cid dir) m = map_sum id snd (moveConnection ok g cid dir m)"

text \<open>A caller that runs operations one after the other stops at the first exception.\<close>

fun run :: "(bool \<times> op) list \<Rightarrow> manager \<Rightarrow> pyerror + manager" where
  "run [] m = Inr m"
| "run ((ok, x) # xs) m = raise_or (step ok x m) (run xs)"

subsection \<open>Well-formed stores\<close>

text \<open>
  \<open>extras\<close> stands for the rest of the dict \<^verbatim>\<open>self.data\<close> when it holds each key
  once and none of the three keys that are fields.
\<close>

definition extras_ok :: "pydata \<Rightarrow> bool" where
  "extras_ok d =
     (distinct (map fst (extras d)) \<and> \<not> has_key (extras d) ''active_group'' \<and>
      \<not> has_key (extras d) ''close_on_connect'' \<and> \<not> has_key (extras d) ''groups'')"

text \<open>
  The shape that the skeleton has and that the annotations of the module describe: the
  groups are a dict with the default group, every group holds a list, and every element of
  such a list is a dict with an \<^verbatim>\<open>id\<close> member.
\<close>

definition has_id :: "json \<Rightarrow> bool" where
  "has_id c = (case c of JObj kvs \<Rightarrow> has_key kvs ''id'' | _ \<Rightarrow> False)"

definition is_conn_list :: "json \<Rightarrow> bool" where
  "is_conn_list v = (case v of JArr xs \<Rightarrow> list_all has_id xs | _ \<Rightarrow> False)"

definition store_ok :: "manager \<Rightarrow> bool" where
  "store_ok m =
     (extras_ok (data m) \<and>
      (case groups (data m) of
         JObj g \<Rightarrow> has_key g DEFAULT_GROUP \<and> distinct (map fst g) \<and>
                   list_all (\<lambda>kv. is_conn_list (snd kv)) g
       | _ \<Rightarrow> False))"

section \<open>RemoteService: the host's remote client\<close>

text \<open>
  The remote client, its sessions and its configuration section belong to the host
  application. \<^verbatim>\<open>ConnectionInfo\<close> is its dataclass; a session is given by what its
  \<^verbatim>\<open>getConnectionInfo()\<close> returns and by \<^verbatim>\<open>transport.insecure\<close>; the client by
  what \<^verbatim>\<open>isConnected()\<close> answers and by its two session slots. Client, session and
  \<^verbatim>\<open>ConnectionInfo\<close> objects and both members of \<^verbatim>\<open>ConnectionMode\<close> are truthy.
\<close>

datatype ConnectionMode = LEADER | FOLLOWER

record ConnectionInfo =
  hostname :: string
  mode :: ConnectionMode
  key :: string
  port :: int
  insecure :: bool

record Session =
  connectionInfo :: ConnectionInfo
  transport_insecure :: bool

record RemoteClient =
  connected :: bool
  leaderSession :: "Session option"
  followerSession :: "Session option"

text \<open>
  The section \<^verbatim>\<open>controlServer\<close> of the host's configuration: each key may be absent,
  which \<^verbatim>\<open>conf.get(k, default)\<close> and \<^verbatim>\<open>conf[k]\<close> tell apart.
\<close>

record controlServer =
  cs_autoconnect :: "bool option"
  cs_selfHosted :: "bool option"
  cs_connectionMode :: "int option"
  cs_key :: "string option"
  cs_host :: "string option"
  cs_port :: "int option"

text \<open>\<^verbatim>\<open>conf.get(k, default)\<close> on a key that may be absent.\<close>

fun get_or :: "'a option \<Rightarrow> 'a \<Rightarrow> 'a" where
  "get_or None dflt = dflt"
| "get_or (Some v) dflt = v"

definition cs_empty :: "controlServer \<Rightarrow> bool" where
  "cs_empty c =
     (cs_autoconnect c = None \<and> cs_selfHosted c = None \<and> cs_connectionMode c = None \<and>
      cs_key c = None \<and> cs_host c = None \<and> cs_port c = None)"

text \<open>
  \<open>remoteRunning\<close> is the answer of \<^verbatim>\<open>_remoteClient.remoteRunning()\<close>,
  \<open>remoteClient\<close> the module's \<^verbatim>\<open>_remoteClient\<close> object, \<open>remoteConfig\<close> the
  \<^verbatim>\<open>controlServer\<close> section, when there is one.
\<close>

record host =
  remoteRunning :: bool
  remoteClient :: "RemoteClient option"
  remoteConfig :: "controlServer option"

definition isRunning :: "host \<Rightarrow> bool" where
  "isRunning h = remoteRunning h"

definition isConnected :: "host \<Rightarrow> pyerror + bool" where
  "isConnected h =
     (if \<not> isRunning h then Inr False
      else case remoteClient h of None \<Rightarrow> Inl AttributeError | Some c \<Rightarrow> Inr (connected c))"

definition getClient :: "host \<Rightarrow> RemoteClient option" where
  "getClient h = (if isRunning h then remoteClient h else None)"

definition getCurrentConnectionInfo :: "host \<Rightarrow> ConnectionInfo option" where
  "getCurrentConnectionInfo h =
     (case getClient h of
        None \<Rightarrow> None
      | Some client \<Rightarrow>
          (case (case leaderSession client of Some s \<Rightarrow> Some s | None \<Rightarrow> followerSession client) of
             None \<Rightarrow> None
           | Some session \<Rightarrow> Some ((connectionInfo session)\<lparr>insecure := transport_insecure session\<rparr>)))"

definition getControlServerConfig :: "host \<Rightarrow> controlServer option" where
  "getControlServerConfig h = remoteConfig h"

text \<open>
  \<^verbatim>\<open>addressToHostPort\<close> and \<^verbatim>\<open>RemoteConnectionMode(n).toConnectionMode()\<close> are the
  host's: they are parameters, \<open>None\<close> standing for the \<^verbatim>\<open>ValueError\<close> they raise.
  The first is called inside \<^verbatim>\<open>try\<close>, the second is not.
\<close>

definition isCurrentConnectionDefault ::
  "(string \<Rightarrow> (string \<times> int) option) \<Rightarrow> (int \<Rightarrow> ConnectionMode option) \<Rightarrow> host \<Rightarrow> pyerror + bool" where
  "isCurrentConnectionDefault addressToHostPort toConnectionMode h =
     raise_or (isConnected h) (\<lambda>isConn.
       if \<not> isConn then Inr False
       else (case getControlServerConfig h of
         None \<Rightarrow> Inr False
       | Some conf \<Rightarrow>
           (if cs_empty conf then Inr False
            else (case getCurrentConnectionInfo h of
              None \<Rightarrow> Inr False
            | Some currentInfo \<Rightarrow>
                raise_or
                  (if \<not> get_or (cs_selfHosted conf) False
                   then (case cs_host conf of
                           None \<Rightarrow> Inl KeyError
                         | Some a \<Rightarrow> Inr (addressToHostPort a))
                   else Inr (Some (''localhost'', get_or (cs_port conf) 6837)))
                  (\<lambda>r. case r of
                     None \<Rightarrow> Inr False
                   | Some (configHostname, configPort) \<Rightarrow>
                       (case cs_connectionMode conf of
                          None \<Rightarrow> Inl KeyError
                        | Some n \<Rightarrow>
                            (case toConnectionMode n of
                               None \<Rightarrow> Inl ValueError
                             | Some configMode \<Rightarrow>
                                 (if hostname currentInfo \<noteq> configHostname then Inr False
                                  else if port currentInfo \<noteq> configPort then Inr False
                                  else (case cs_key conf of
                                          None \<Rightarrow> Inl KeyError
                                        | Some k \<Rightarrow>
                                            Inr (key currentInfo = k \<and>
                                                 mode currentInfo = configMode))))))))))"

definition getSwapTargetInfo :: "host \<Rightarrow> ConnectionInfo option \<times> ConnectionMode option" where
  "getSwapTargetInfo h =
     (case getClient h of
        None \<Rightarrow> (None, None)
      | Some client \<Rightarrow>
          (let (currentInfo, newMode) =
                 (if leaderSession client \<noteq> None then (getCurrentConnectionInfo h, Some FOLLOWER)
                  else if followerSession client \<noteq> None then (getCurrentConnectionInfo h, Some LEADER)
                  else (None, None))
           in case (currentInfo, newMode) of
                (Some ci, Some nm) \<Rightarrow>
                  (Some \<lparr>hostname = hostname ci, mode = nm, key = key ci, port = port ci,
                         insecure = insecure ci\<rparr>, Some nm)
              | _ \<Rightarrow> (None, None)))"

subsection \<open>Setting the auto-connect record\<close>

text \<open>
  The argument of \<^verbatim>\<open>setAsAutoConnect\<close> is a connection dict of the manager, with the
  members \<^verbatim>\<open>addConnection\<close> gives it; \<^verbatim>\<open>selfHosted\<close> is read with
  \<^verbatim>\<open>conn.get("selfHosted", False)\<close> and may be absent.
\<close>

record conn =
  conn_id :: string
  conn_name :: string
  conn_host :: string
  conn_key :: string
  conn_port :: int
  conn_mode :: string
  conn_selfHosted :: "bool option"

text \<open>\<^verbatim>\<open>str(n)\<close> for an int, as the f-string formats the port.\<close>

definition digit_char :: "nat \<Rightarrow> char" where
  "digit_char n = ''0123456789'' ! n"

function str_nat :: "nat \<Rightarrow> string" where
  "str_nat n = (if n < 10 then [digit_char n] else str_nat (n div 10) @ [digit_char (n mod 10)])"
  by pat_completeness auto
termination
  by (relation "measure id") auto

definition str_int :: "int \<Rightarrow> string" where
  "str_int i = (if i < 0 then CHR ''-'' # str_nat (nat (- i)) else str_nat (nat i))"

definition setAsAutoConnect :: "conn \<Rightarrow> host \<Rightarrow> pyerror + host" where
  "setAsAutoConnect c h =
     (case remoteConfig h of
        None \<Rightarrow> Inl KeyError
      | Some controlServer \<Rightarrow>
          (let selfHosted = get_or (conn_selfHosted c) False;
               cs1 = controlServer
                 \<lparr>cs_autoconnect := Some True,
                  cs_selfHosted := Some selfHosted,
                  cs_connectionMode := Some (if conn_mode c = ''leader'' then 1 else 0),
                  cs_key := Some (conn_key c)\<rparr>;
               cs2 = (if selfHosted then cs1\<lparr>cs_port := Some (conn_port c)\<rparr>
                      else cs1\<lparr>cs_host := Some
                        (if conn_port c \<noteq> 6837
                         then conn_host c @ '':'' @ str_int (conn_port c)
                         else conn_host c)\<rparr>)
           in Inr (h\<lparr>remoteConfig := Some cs2\<rparr>)))"

section \<open>Facts about dicts\<close>

lemma setitem_absent: "\<not> has_key kvs k \<Longrightarrow> setitem kvs k v = kvs @ [(k, v)]"
  by (induction kvs) (auto simp: has_key_def)

lemma keys_setitem:
  "map fst (setitem kvs k v) = (if has_key kvs k then map fst kvs else map fst kvs @ [k])"
  by (induction kvs) (auto simp: has_key_def rev_image_eqI)

lemma has_key_setitem: "has_key (setitem kvs k v) k' = (k' = k \<or> has_key kvs k')"
  unfolding has_key_def[of "setitem kvs k v"] keys_setitem by (auto simp: has_key_def)

lemma map_of_setitem: "map_of (setitem kvs k v) k' = (if k' = k then Some v else map_of kvs k')"
  by (induction kvs) auto

lemma update_data_active_group_absent:
  "\<not> has_key kvs ''active_group'' \<Longrightarrow> active_group (update_data d kvs) = active_group d"
  by (induction d kvs rule: update_data.induct) (auto simp: has_key_def data_setitem_def)

lemma update_data_close_on_connect_absent:
  "\<not> has_key kvs ''close_on_connect'' \<Longrightarrow>
   close_on_connect (update_data d kvs) = close_on_connect d"
  by (induction d kvs rule: update_data.induct) (auto simp: has_key_def data_setitem_def)

lemma update_data_groups_absent:
  "\<not> has_key kvs ''groups'' \<Longrightarrow> groups (update_data d kvs) = groups d"
  by (induction d kvs rule: update_data.induct) (auto simp: has_key_def data_setitem_def)

lemma update_data_extras_absent:
  "\<not> has_key kvs k \<Longrightarrow> map_of (extras (update_data d kvs)) k = map_of (extras d) k"
  by (induction d kvs rule: update_data.induct)
     (auto simp: has_key_def data_setitem_def map_of_setitem)

section \<open>Loading the configuration\<close>

text \<open>
  Claim C1, as amended. \<^verbatim>\<open>loadConfig\<close> returns normally and leaves \<^verbatim>\<open>self.data\<close>
  as it was when the file is missing, cannot be opened or read (\<^verbatim>\<open>OSError\<close>), or is not
  JSON (\<^verbatim>\<open>JSONDecodeError\<close>). When \<^verbatim>\<open>json.load\<close> returns a dict and the
  \<^verbatim>\<open>groups\<close> member of the merged data is itself a dict, it returns normally too: the
  data is the previous data overridden key by key by the loaded dict, with an empty
  \<^verbatim>\<open>"Default"\<close> group appended when the merged groups have none. Top-level keys that the
  loaded dict does not have keep their previous values. Nothing is said of a file on which
  the read or the parser raises another exception.
\<close>

theorem load_returns_normally:
  "(f = Missing \<or> f = Unreadable \<or> f = Malformed \<longrightarrow> loadConfig f d = (None, d)) \<and>
   (f = Document loaded \<and> groups (update_data d loaded) = JObj g \<longrightarrow>
      loadConfig f d =
        (None, (update_data d loaded)
           \<lparr>groups := JObj (if has_key g DEFAULT_GROUP then g else g @ [(DEFAULT_GROUP, JArr [])])\<rparr>) \<and>
      has_key (if has_key g DEFAULT_GROUP then g else g @ [(DEFAULT_GROUP, JArr [])]) DEFAULT_GROUP \<and>
      (\<not> has_key loaded ''active_group'' \<longrightarrow>
         active_group (update_data d loaded) = active_group d) \<and>
      (\<not> has_key loaded ''close_on_connect'' \<longrightarrow>
         close_on_connect (update_data d loaded) = close_on_connect d) \<and>
      (\<not> has_key loaded ''groups'' \<longrightarrow> groups (update_data d loaded) = groups d) \<and>
      (\<forall>k. \<not> has_key loaded k \<longrightarrow>
         map_of (extras (update_data d loaded)) k = map_of (extras d) k))"
proof (intro conjI impI)
  assume "f = Missing \<or> f = Unreadable \<or> f = Malformed"
  then show "loadConfig f d = (None, d)"
    by (auto simp: loadConfig_def)
next
  assume a: "f = Document loaded \<and> groups (update_data d loaded) = JObj g"
  show "loadConfig f d =
        (None, (update_data d loaded)
           \<lparr>groups := JObj (if has_key g DEFAULT_GROUP then g else g @ [(DEFAULT_GROUP, JArr [])])\<rparr>)"
  proof (cases "has_key g DEFAULT_GROUP")
    case True
    with a show ?thesis
      by (simp add: loadConfig_def Let_def)
  next
    case False
    with a show ?thesis
      by (simp add: loadConfig_def Let_def setitem_absent)
  qed
  show "has_key (if has_key g DEFAULT_GROUP then g else g @ [(DEFAULT_GROUP, JArr [])]) DEFAULT_GROUP"
    by (simp add: has_key_def)
next
  assume "\<not> has_key loaded ''active_group''"
  then show "active_group (update_data d loaded) = active_group d"
    by (rule update_data_active_group_absent)
next
  assume "\<not> has_key loaded ''close_on_connect''"
  then show "close_on_connect (update_data d loaded) = close_on_connect d"
    by (rule update_data_close_on_connect_absent)
next
  assume "\<not> has_key loaded ''groups''"
  then show "groups (update_data d loaded) = groups d"
    by (rule update_data_groups_absent)
next
  show "\<forall>k. \<not> has_key loaded k \<longrightarrow>
         map_of (extras (update_data d loaded)) k = map_of (extras d) k"
    by (simp add: update_data_extras_absent)
qed

text \<open>
  The theorem at three files, read into the skeleton: one that is not JSON; the document
  \<^verbatim>\<open>{"active_group": "Work", "groups": {"Work": []}}\<close>, which has no
  \<^verbatim>\<open>close_on_connect\<close> and no default group; and \<^verbatim>\<open>{"version": 2}\<close>, which
  has none of the three keys of the skeleton.
\<close>

theorem load_returns_normally_witness:
  "loadConfig Malformed getDefaultData = (None, getDefaultData) \<and>
   loadConfig (Document [(''active_group'', JStr ''Work''), (''groups'', JObj [(''Work'', JArr [])])])
       getDefaultData =
     (None, \<lparr>active_group = JStr ''Work'', close_on_connect = JBool True,
             groups = JObj [(''Work'', JArr []), (''Default'', JArr [])], extras = []\<rparr>) \<and>
   loadConfig (Document [(''version'', JInt 2)]) getDefaultData =
     (None, \<lparr>active_group = JStr ''Default'', close_on_connect = JBool True,
             groups = JObj [(''Default'', JArr [])], extras = [(''version'', JInt 2)]\<rparr>)"
proof -
  let ?doc = "[(''active_group'', JStr ''Work''), (''groups'', JObj [(''Work'', JArr [])])]"
  let ?doc2 = "[(''version'', JInt 2)]"
  have g: "groups (update_data getDefaultData ?doc) = JObj [(''Work'', JArr [])]"
    by (simp add: data_setitem_def getDefaultData_def)
  have u: "update_data getDefaultData ?doc =
      \<lparr>active_group = JStr ''Work'', close_on_connect = JBool True,
       groups = JObj [(''Work'', JArr [])], extras = []\<rparr>"
    by (simp add: data_setitem_def getDefaultData_def)
  have "loadConfig Malformed getDefaultData = (None, getDefaultData)"
    using load_returns_normally [of Malformed getDefaultData] by simp
  moreover have "loadConfig (Document ?doc) getDefaultData =
     (None, (update_data getDefaultData ?doc)
        \<lparr>groups := JObj (if has_key [(''Work'', JArr [])] DEFAULT_GROUP then [(''Work'', JArr [])]
                         else [(''Work'', JArr [])] @ [(DEFAULT_GROUP, JArr [])])\<rparr>)"
    using load_returns_normally [of "Document ?doc" getDefaultData ?doc "[(''Work'', JArr [])]"] g
    by blast
  then have "loadConfig (Document ?doc) getDefaultData =
     (None, \<lparr>active_group = JStr ''Work'', close_on_connect = JBool True,
             groups = JObj [(''Work'', JArr []), (''Default'', JArr [])], extras = []\<rparr>)"
    by (simp only: u) (simp add: has_key_def DEFAULT_GROUP_def)
  moreover have "loadConfig (Document ?doc2) getDefaultData =
     (None, \<lparr>active_group = JStr ''Default'', close_on_connect = JBool True,
             groups = JObj [(''Default'', JArr [])], extras = [(''version'', JInt 2)]\<rparr>)"
  proof -
    have k: "\<not> has_key ?doc2 ''active_group''" "\<not> has_key ?doc2 ''close_on_connect''"
      "\<not> has_key ?doc2 ''groups''"
      by (simp_all add: has_key_def)
    have g2: "groups (update_data getDefaultData ?doc2) = JObj [(DEFAULT_GROUP, JArr [])]"
      by (simp add: data_setitem_def getDefaultData_def)
    note th = load_returns_normally
      [of "Document ?doc2" getDefaultData ?doc2 "[(DEFAULT_GROUP, JArr [])]"]
    from th g2 k have keep:
      "active_group (update_data getDefaultData ?doc2) = active_group getDefaultData"
      "close_on_connect (update_data getDefaultData ?doc2) = close_on_connect getDefaultData"
      by blast+
    have e: "extras (update_data getDefaultData ?doc2) = [(''version'', JInt 2)]"
      by (simp add: data_setitem_def getDefaultData_def)
    from th g2 have "loadConfig (Document ?doc2) getDefaultData =
        (None, (update_data getDefaultData ?doc2)
           \<lparr>groups := JObj (if has_key [(DEFAULT_GROUP, JArr [])] DEFAULT_GROUP
                            then [(DEFAULT_GROUP, JArr [])]
                            else [(DEFAULT_GROUP, JArr [])] @ [(DEFAULT_GROUP, JArr [])])\<rparr>)"
      by blast
    moreover have "(update_data getDefaultData ?doc2)
           \<lparr>groups := JObj (if has_key [(DEFAULT_GROUP, JArr [])] DEFAULT_GROUP
                            then [(DEFAULT_GROUP, JArr [])]
                            else [(DEFAULT_GROUP, JArr [])] @ [(DEFAULT_GROUP, JArr [])])\<rparr> =
        \<lparr>active_group = JStr ''Default'', close_on_connect = JBool True,
         groups = JObj [(''Default'', JArr [])], extras = [(''version'', JInt 2)]\<rparr>"
      using keep e
      by (cases "update_data getDefaultData ?doc2")
         (simp add: getDefaultData_def DEFAULT_GROUP_def has_key_def)
    ultimately show ?thesis by simp
  qed
  ultimately show ?thesis by simp
qed

text \<open>
  Claim C1 as stated fails: the document \<^verbatim>\<open>{"groups": null}\<close> parses, the merge stores
  \<^verbatim>\<open>None\<close> under \<^verbatim>\<open>groups\<close>, and the membership test on it raises
  \<^verbatim>\<open>TypeError\<close>, which the \<^verbatim>\<open>except\<close> clause does not catch. The exception reaches
  the caller and the data no longer has its default groups.
\<close>

theorem load_raises_on_null_groups:
  "loadConfig (Document [(''groups'', JNull)]) getDefaultData =
     (Some TypeError, getDefaultData\<lparr>groups := JNull\<rparr>)"
  by (simp add: loadConfig_def data_setitem_def getDefaultData_def)

text \<open>
  The exceptions of the read and of the parser that the \<^verbatim>\<open>except\<close> clause does not
  name reach the caller as well, with the data as it was: \<^verbatim>\<open>UnicodeDecodeError\<close> for
  bytes that are not UTF-8, \<^verbatim>\<open>ValueError\<close> for an integer literal beyond the digit
  limit, \<^verbatim>\<open>RecursionError\<close> for nesting beyond the recursion limit.
\<close>

lemma load_passes_parser_exceptions:
  "loadConfig Undecodable d = (Some UnicodeDecodeError, d)"
  "loadConfig TooManyDigits d = (Some ValueError, d)"
  "loadConfig TooDeep d = (Some RecursionError, d)"
  by (simp_all add: loadConfig_def)

section \<open>Queries on the remote client\<close>

text \<open>
  Claim C9. When the remote client is not running, the queries answer with their defaults
  and raise nothing: \<^verbatim>\<open>isConnected()\<close> is false, \<^verbatim>\<open>getCurrentConnectionInfo()\<close> is
  \<^verbatim>\<open>None\<close>, \<^verbatim>\<open>getSwapTargetInfo()\<close> is \<^verbatim>\<open>(None, None)\<close>, and
  \<^verbatim>\<open>isCurrentConnectionDefault()\<close> is false.
\<close>

theorem not_running_defaults:
  "\<not> isRunning h \<Longrightarrow>
     isConnected h = Inr False \<and>
     getCurrentConnectionInfo h = None \<and>
     getSwapTargetInfo h = (None, None) \<and>
     isCurrentConnectionDefault a2hp toMode h = Inr False"
  by (simp add: isConnected_def getClient_def getCurrentConnectionInfo_def getSwapTargetInfo_def
      isCurrentConnectionDefault_def raise_or_def)

text \<open>The theorem at a host whose client is not running, though a client object with a
  leader session is still around.\<close>

theorem not_running_defaults_witness:
  "\<not> isRunning \<lparr>remoteRunning = False,
       remoteClient = Some \<lparr>connected = True,
         leaderSession = Some \<lparr>connectionInfo = \<lparr>hostname = ''example.org'', mode = LEADER,
           key = ''abc'', port = 7000, insecure = False\<rparr>, transport_insecure = False\<rparr>,
         followerSession = None\<rparr>,
       remoteConfig = None\<rparr> \<and>
   isConnected \<lparr>remoteRunning = False,
       remoteClient = Some \<lparr>connected = True,
         leaderSession = Some \<lparr>connectionInfo = \<lparr>hostname = ''example.org'', mode = LEADER,
           key = ''abc'', port = 7000, insecure = False\<rparr>, transport_insecure = False\<rparr>,
         followerSession = None\<rparr>,
       remoteConfig = None\<rparr> = Inr False \<and>
   getSwapTargetInfo \<lparr>remoteRunning = False,
       remoteClient = Some \<lparr>connected = True,
         leaderSession = Some \<lparr>connectionInfo = \<lparr>hostname = ''example.org'', mode = LEADER,
           key = ''abc'', port = 7000, insecure = False\<rparr>, transport_insecure = False\<rparr>,
         followerSession = None\<rparr>,
       remoteConfig = None\<rparr> = (None, None)"
proof -
  let ?h = "\<lparr>remoteRunning = False,
       remoteClient = Some \<lparr>connected = True,
         leaderSession = Some \<lparr>connectionInfo = \<lparr>hostname = ''example.org'', mode = LEADER,
           key = ''abc'', port = 7000, insecure = False\<rparr>, transport_insecure = False\<rparr>,
         followerSession = None\<rparr>,
       remoteConfig = None\<rparr>"
  have nr: "\<not> isRunning ?h"
    by (simp add: isRunning_def)
  from not_running_defaults [OF nr] nr show ?thesis
    by blast
qed

text \<open>
  Claim C6. \<^verbatim>\<open>getSwapTargetInfo()\<close> returns \<^verbatim>\<open>(None, None)\<close> when there is no client or
  no session. With a leader session the target mode is \<^verbatim>\<open>FOLLOWER\<close>, with a follower
  session (and no leader session) it is \<^verbatim>\<open>LEADER\<close>; the target has the hostname, port
  and key of the session's connection info and the \<^verbatim>\<open>insecure\<close> flag of its transport,
  that is, the fields of \<^verbatim>\<open>getCurrentConnectionInfo()\<close> with only the mode replaced.
\<close>

theorem swap_target_flips_mode:
  "(getClient h = None \<longrightarrow> getSwapTargetInfo h = (None, None)) \<and>
   (getClient h = Some c \<and> leaderSession c = None \<and> followerSession c = None \<longrightarrow>
      getSwapTargetInfo h = (None, None)) \<and>
   (getClient h = Some c \<and> leaderSession c = Some s \<longrightarrow>
      getSwapTargetInfo h =
        (Some ((connectionInfo s)\<lparr>mode := FOLLOWER, insecure := transport_insecure s\<rparr>),
         Some FOLLOWER)) \<and>
   (getClient h = Some c \<and> leaderSession c = None \<and> followerSession c = Some s \<longrightarrow>
      getSwapTargetInfo h =
        (Some ((connectionInfo s)\<lparr>mode := LEADER, insecure := transport_insecure s\<rparr>),
         Some LEADER)) \<and>
   (getCurrentConnectionInfo h = None \<longrightarrow> getSwapTargetInfo h = (None, None)) \<and>
   (getCurrentConnectionInfo h = Some ci \<longrightarrow>
      (\<exists>t m. getSwapTargetInfo h = (Some t, Some m) \<and> mode t = m \<and>
         hostname t = hostname ci \<and> port t = port ci \<and> key t = key ci \<and>
         insecure t = insecure ci))"
  by (auto simp: getSwapTargetInfo_def getCurrentConnectionInfo_def split: option.splits)

text \<open>
  The spec's scenario: a follower session to \<open>h\<close>, \<open>p\<close>, \<open>k\<close> on an insecure
  transport gives a leader-mode target with the same \<open>h\<close>, \<open>p\<close>, \<open>k\<close>, insecure.
  A leader session gives a follower-mode target, and a client without session gives
  \<^verbatim>\<open>(None, None)\<close>.
\<close>

theorem swap_target_flips_mode_witness:
  "getSwapTargetInfo \<lparr>remoteRunning = True,
       remoteClient = Some \<lparr>connected = True, leaderSession = None,
         followerSession = Some \<lparr>connectionInfo = \<lparr>hostname = ''localhost'', mode = FOLLOWER,
           key = ''k1'', port = 6837, insecure = False\<rparr>, transport_insecure = True\<rparr>\<rparr>,
       remoteConfig = None\<rparr> =
     (Some \<lparr>hostname = ''localhost'', mode = LEADER, key = ''k1'', port = 6837, insecure = True\<rparr>,
      Some LEADER) \<and>
   getSwapTargetInfo \<lparr>remoteRunning = True,
       remoteClient = Some \<lparr>connected = True,
         leaderSession = Some \<lparr>connectionInfo = \<lparr>hostname = ''example.org'', mode = LEADER,
           key = ''abc'', port = 7000, insecure = False\<rparr>, transport_insecure = False\<rparr>,
         followerSession = None\<rparr>,
       remoteConfig = None\<rparr> =
     (Some \<lparr>hostname = ''example.org'', mode = FOLLOWER, key = ''abc'', port = 7000,
            insecure = False\<rparr>,
      Some FOLLOWER) \<and>
   getSwapTargetInfo \<lparr>remoteRunning = True,
       remoteClient = Some \<lparr>connected = False, leaderSession = None, followerSession = None\<rparr>,
       remoteConfig = None\<rparr> = (None, None)"
proof -
  let ?s = "\<lparr>connectionInfo = \<lparr>hostname = ''localhost'', mode = FOLLOWER,
           key = ''k1'', port = 6837, insecure = False\<rparr>, transport_insecure = True\<rparr>"
  let ?c = "\<lparr>connected = True, leaderSession = None, followerSession = Some ?s\<rparr>"
  let ?h = "\<lparr>remoteRunning = True, remoteClient = Some ?c, remoteConfig = None\<rparr>"
  let ?s2 = "\<lparr>connectionInfo = \<lparr>hostname = ''example.org'', mode = LEADER,
           key = ''abc'', port = 7000, insecure = False\<rparr>, transport_insecure = False\<rparr>"
  let ?c2 = "\<lparr>connected = True, leaderSession = Some ?s2, followerSession = None\<rparr>"
  let ?h2 = "\<lparr>remoteRunning = True, remoteClient = Some ?c2, remoteConfig = None\<rparr>"
  let ?c3 = "\<lparr>connected = False, leaderSession = None, followerSession = None\<rparr>"
  let ?h3 = "\<lparr>remoteRunning = True, remoteClient = Some ?c3, remoteConfig = None\<rparr>"
  have c: "getClient ?h = Some ?c \<and> leaderSession ?c = None \<and> followerSession ?c = Some ?s"
    by (simp add: getClient_def isRunning_def)
  from swap_target_flips_mode [of ?h ?c ?s] c
  have "getSwapTargetInfo ?h =
        (Some ((connectionInfo ?s)\<lparr>mode := LEADER, insecure := transport_insecure ?s\<rparr>),
         Some LEADER)"
    by blast
  then have 1: "getSwapTargetInfo ?h =
     (Some \<lparr>hostname = ''localhost'', mode = LEADER, key = ''k1'', port = 6837, insecure = True\<rparr>,
      Some LEADER)"
    by simp
  have c2: "getClient ?h2 = Some ?c2 \<and> leaderSession ?c2 = Some ?s2"
    by (simp add: getClient_def isRunning_def)
  from swap_target_flips_mode [of ?h2 ?c2 ?s2] c2
  have "getSwapTargetInfo ?h2 =
        (Some ((connectionInfo ?s2)\<lparr>mode := FOLLOWER, insecure := transport_insecure ?s2\<rparr>),
         Some FOLLOWER)"
    by blast
  then have 2: "getSwapTargetInfo ?h2 =
     (Some \<lparr>hostname = ''example.org'', mode = FOLLOWER, key = ''abc'', port = 7000,
            insecure = False\<rparr>,
      Some FOLLOWER)"
    by simp
  have c3: "getClient ?h3 = Some ?c3 \<and> leaderSession ?c3 = None \<and> followerSession ?c3 = None"
    by (simp add: getClient_def isRunning_def)
  from swap_target_flips_mode [of ?h3 ?c3] c3
  have 3: "getSwapTargetInfo ?h3 = (None, None)"
    by blast
  from 1 2 3 show ?thesis by blast
qed

subsection \<open>Comparing the session with the auto-connect record\<close>

text \<open>Once the three guards have passed, the function is its address and mode part.\<close>

lemma icd_connected:
  assumes "isConnected h = Inr True" "getControlServerConfig h = Some conf"
    "getCurrentConnectionInfo h = Some ci"
  shows "isCurrentConnectionDefault a2hp toMode h =
     (if cs_empty conf then Inr False
      else raise_or
        (if \<not> get_or (cs_selfHosted conf) False
         then (case cs_host conf of None \<Rightarrow> Inl KeyError | Some a \<Rightarrow> Inr (a2hp a))
         else Inr (Some (''localhost'', get_or (cs_port conf) 6837)))
        (\<lambda>r. case r of
           None \<Rightarrow> Inr False
         | Some (configHostname, configPort) \<Rightarrow>
             (case cs_connectionMode conf of
                None \<Rightarrow> Inl KeyError
              | Some n \<Rightarrow>
                  (case toMode n of
                     None \<Rightarrow> Inl ValueError
                   | Some configMode \<Rightarrow>
                       (if hostname ci \<noteq> configHostname then Inr False
                        else if port ci \<noteq> configPort then Inr False
                        else (case cs_key conf of
                                None \<Rightarrow> Inl KeyError
                              | Some k \<Rightarrow> Inr (key ci = k \<and> mode ci = configMode)))))))"
  using assms by (simp add: isCurrentConnectionDefault_def raise_or_def)

lemma icd_true_guards:
  assumes "isCurrentConnectionDefault a2hp toMode h = Inr True"
  shows "isConnected h = Inr True \<and> (\<exists>conf ci. getControlServerConfig h = Some conf \<and>
     getCurrentConnectionInfo h = Some ci)"
proof -
  from assms have c: "isConnected h = Inr True"
    by (cases "isConnected h") (auto simp: isCurrentConnectionDefault_def raise_or_def split: if_splits)
  from assms c obtain conf where conf: "getControlServerConfig h = Some conf"
    by (cases "getControlServerConfig h") (auto simp: isCurrentConnectionDefault_def raise_or_def)
  from assms c conf obtain ci where "getCurrentConnectionInfo h = Some ci"
    by (cases "getCurrentConnectionInfo h")
      (auto simp: isCurrentConnectionDefault_def raise_or_def split: if_splits)
  with c conf show ?thesis by blast
qed

lemma icd_tail_true:
  "(if cs_empty conf then Inr False
      else raise_or
        (if \<not> get_or (cs_selfHosted conf) False
         then (case cs_host conf of None \<Rightarrow> Inl KeyError | Some a \<Rightarrow> Inr (a2hp a))
         else Inr (Some (''localhost'', get_or (cs_port conf) 6837)))
        (\<lambda>r. case r of
           None \<Rightarrow> Inr False
         | Some (configHostname, configPort) \<Rightarrow>
             (case cs_connectionMode conf of
                None \<Rightarrow> Inl KeyError
              | Some n \<Rightarrow>
                  (case toMode n of
                     None \<Rightarrow> Inl ValueError
                   | Some configMode \<Rightarrow>
                       (if hostname ci \<noteq> configHostname then Inr False
                        else if port ci \<noteq> configPort then Inr False
                        else (case cs_key conf of
                                None \<Rightarrow> Inl KeyError
                              | Some k \<Rightarrow> Inr (key ci = k \<and> mode ci = configMode))))))) = Inr True
   \<longleftrightarrow>
     (\<exists>k n. (if get_or (cs_selfHosted conf) False
          then hostname ci = ''localhost'' \<and> port ci = get_or (cs_port conf) 6837
          else \<exists>addr. cs_host conf = Some addr \<and> a2hp addr = Some (hostname ci, port ci)) \<and>
         cs_key conf = Some k \<and> key ci = k \<and>
         cs_connectionMode conf = Some n \<and> toMode n = Some (mode ci))"
proof (cases "get_or (cs_selfHosted conf) False")
  case True
  then have ne: "\<not> cs_empty conf" by (auto simp: cs_empty_def)
  show ?thesis
    using True ne by (cases "cs_connectionMode conf"; cases "cs_key conf")
      (auto simp: raise_or_def split: option.splits if_splits)
next
  case False
  show ?thesis
  proof (cases "cs_host conf")
    case None
    with False show ?thesis by (simp add: raise_or_def)
  next
    case (Some addr)
    then have ne: "\<not> cs_empty conf" by (auto simp: cs_empty_def)
    show ?thesis
      using False Some ne by (cases "a2hp addr"; cases "cs_connectionMode conf"; cases "cs_key conf")
        (auto simp: raise_or_def split: option.splits if_splits)
  qed
qed

text \<open>
  Claim C5. \<^verbatim>\<open>isCurrentConnectionDefault()\<close> returns true exactly when the client is
  connected, there is a current session, and the auto-connect record resolves to the
  session's hostname, port, key and mode: the hostname and port are \<^verbatim>\<open>localhost\<close> and
  the record's port (6837 when it has none) if the record is self-hosted, and what
  \<^verbatim>\<open>addressToHostPort\<close> makes of the record's host otherwise. When the record is not
  self-hosted and the parser rejects its host, the function returns false and raises
  nothing.
\<close>

theorem current_connection_default_iff:
  "(isCurrentConnectionDefault a2hp toMode h = Inr True \<longleftrightarrow>
      isConnected h = Inr True \<and>
      (\<exists>ci conf k n.
         getCurrentConnectionInfo h = Some ci \<and> getControlServerConfig h = Some conf \<and>
         (if get_or (cs_selfHosted conf) False
          then hostname ci = ''localhost'' \<and> port ci = get_or (cs_port conf) 6837
          else \<exists>addr. cs_host conf = Some addr \<and> a2hp addr = Some (hostname ci, port ci)) \<and>
         cs_key conf = Some k \<and> key ci = k \<and>
         cs_connectionMode conf = Some n \<and> toMode n = Some (mode ci))) \<and>
   (isConnected h = Inr True \<and> getCurrentConnectionInfo h = Some ci' \<and>
    getControlServerConfig h = Some conf' \<and> \<not> get_or (cs_selfHosted conf') False \<and>
    cs_host conf' = Some addr' \<and> a2hp addr' = None \<longrightarrow>
      isCurrentConnectionDefault a2hp toMode h = Inr False)"
proof (intro conjI)
  show "isCurrentConnectionDefault a2hp toMode h = Inr True \<longleftrightarrow>
      isConnected h = Inr True \<and>
      (\<exists>ci conf k n.
         getCurrentConnectionInfo h = Some ci \<and> getControlServerConfig h = Some conf \<and>
         (if get_or (cs_selfHosted conf) False
          then hostname ci = ''localhost'' \<and> port ci = get_or (cs_port conf) 6837
          else \<exists>addr. cs_host conf = Some addr \<and> a2hp addr = Some (hostname ci, port ci)) \<and>
         cs_key conf = Some k \<and> key ci = k \<and>
         cs_connectionMode conf = Some n \<and> toMode n = Some (mode ci))"
    (is "?lhs \<longleftrightarrow> ?rhs")
  proof
    assume l: ?lhs
    from icd_true_guards [OF l] obtain conf ci where
      g: "isConnected h = Inr True" "getControlServerConfig h = Some conf"
        "getCurrentConnectionInfo h = Some ci"
      by blast
    from l obtain k n where
      "(if get_or (cs_selfHosted conf) False
          then hostname ci = ''localhost'' \<and> port ci = get_or (cs_port conf) 6837
          else \<exists>addr. cs_host conf = Some addr \<and> a2hp addr = Some (hostname ci, port ci)) \<and>
         cs_key conf = Some k \<and> key ci = k \<and>
         cs_connectionMode conf = Some n \<and> toMode n = Some (mode ci)"
      unfolding icd_connected [OF g] icd_tail_true by blast
    with g show ?rhs by blast
  next
    assume ?rhs
    then obtain ci conf k n where
      g: "isConnected h = Inr True" "getControlServerConfig h = Some conf"
        "getCurrentConnectionInfo h = Some ci"
      and r: "(if get_or (cs_selfHosted conf) False
          then hostname ci = ''localhost'' \<and> port ci = get_or (cs_port conf) 6837
          else \<exists>addr. cs_host conf = Some addr \<and> a2hp addr = Some (hostname ci, port ci)) \<and>
         cs_key conf = Some k \<and> key ci = k \<and>
         cs_connectionMode conf = Some n \<and> toMode n = Some (mode ci)"
      by blast
    show ?lhs
      unfolding icd_connected [OF g] icd_tail_true using r by blast
  qed
next
  show "isConnected h = Inr True \<and> getCurrentConnectionInfo h = Some ci' \<and>
    getControlServerConfig h = Some conf' \<and> \<not> get_or (cs_selfHosted conf') False \<and>
    cs_host conf' = Some addr' \<and> a2hp addr' = None \<longrightarrow>
      isCurrentConnectionDefault a2hp toMode h = Inr False"
    by (auto simp: icd_connected raise_or_def cs_empty_def)
qed


text \<open>
  The spec's scenario, with a parser that knows one address: the record
  \<^verbatim>\<open>{host: "example.org:7000", key: "abc", connectionMode: 1, autoconnect: true}\<close> and a
  leader session to \<^verbatim>\<open>example.org:7000\<close> with key \<^verbatim>\<open>abc\<close> give true; the same
  session on port 7001 does not; a host that the parser rejects gives false. A self-hosted
  record without port and a follower session to \<^verbatim>\<open>localhost\<close> on port 6837 give true.
\<close>

theorem current_connection_default_iff_witness:
  "isCurrentConnectionDefault
     (\<lambda>a. if a = ''example.org:7000'' then Some (''example.org'', 7000) else None)
     (\<lambda>n. if n = 1 then Some LEADER else if n = 0 then Some FOLLOWER else None)
     \<lparr>remoteRunning = True,
      remoteClient = Some \<lparr>connected = True,
        leaderSession = Some \<lparr>connectionInfo = \<lparr>hostname = ''example.org'', mode = LEADER,
          key = ''abc'', port = 7000, insecure = False\<rparr>, transport_insecure = False\<rparr>,
        followerSession = None\<rparr>,
      remoteConfig = Some \<lparr>cs_autoconnect = Some True, cs_selfHosted = None,
        cs_connectionMode = Some 1, cs_key = Some ''abc'', cs_host = Some ''example.org:7000'',
        cs_port = None\<rparr>\<rparr> = Inr True \<and>
   isCurrentConnectionDefault
     (\<lambda>a. if a = ''example.org:7000'' then Some (''example.org'', 7000) else None)
     (\<lambda>n. if n = 1 then Some LEADER else if n = 0 then Some FOLLOWER else None)
     \<lparr>remoteRunning = True,
      remoteClient = Some \<lparr>connected = True,
        leaderSession = Some \<lparr>connectionInfo = \<lparr>hostname = ''example.org'', mode = LEADER,
          key = ''abc'', port = 7001, insecure = False\<rparr>, transport_insecure = False\<rparr>,
        followerSession = None\<rparr>,
      remoteConfig = Some \<lparr>cs_autoconnect = Some True, cs_selfHosted = None,
        cs_connectionMode = Some 1, cs_key = Some ''abc'', cs_host = Some ''example.org:7000'',
        cs_port = None\<rparr>\<rparr> \<noteq> Inr True \<and>
   isCurrentConnectionDefault
     (\<lambda>a. if a = ''example.org:7000'' then Some (''example.org'', 7000) else None)
     (\<lambda>n. if n = 1 then Some LEADER else if n = 0 then Some FOLLOWER else None)
     \<lparr>remoteRunning = True,
      remoteClient = Some \<lparr>connected = True,
        leaderSession = Some \<lparr>connectionInfo = \<lparr>hostname = ''example.org'', mode = LEADER,
          key = ''abc'', port = 7000, insecure = False\<rparr>, transport_insecure = False\<rparr>,
        followerSession = None\<rparr>,
      remoteConfig = Some \<lparr>cs_autoconnect = Some True, cs_selfHosted = None,
        cs_connectionMode = Some 1, cs_key = Some ''abc'', cs_host = Some ''example.org:x'',
        cs_port = None\<rparr>\<rparr> = Inr False \<and>
   isCurrentConnectionDefault
     (\<lambda>a. if a = ''example.org:7000'' then Some (''example.org'', 7000) else None)
     (\<lambda>n. if n = 1 then Some LEADER else if n = 0 then Some FOLLOWER else None)
     \<lparr>remoteRunning = True,
      remoteClient = Some \<lparr>connected = True, leaderSession = None,
        followerSession = Some \<lparr>connectionInfo = \<lparr>hostname = ''localhost'', mode = FOLLOWER,
          key = ''k1'', port = 6837, insecure = False\<rparr>, transport_insecure = True\<rparr>\<rparr>,
      remoteConfig = Some \<lparr>cs_autoconnect = Some True, cs_selfHosted = Some True,
        cs_connectionMode = Some 0, cs_key = Some ''k1'', cs_host = None,
        cs_port = None\<rparr>\<rparr> = Inr True"
proof -
  let ?a = "\<lambda>a. if a = ''example.org:7000'' then Some (''example.org'', 7000::int) else None"
  let ?t = "\<lambda>n::int. if n = 1 then Some LEADER else if n = 0 then Some FOLLOWER else None"
  let ?ci = "\<lambda>p. \<lparr>hostname = ''example.org'', mode = LEADER, key = ''abc'', port = p,
          insecure = False\<rparr>"
  let ?conf = "\<lambda>a. \<lparr>cs_autoconnect = Some True, cs_selfHosted = None,
        cs_connectionMode = Some 1, cs_key = Some ''abc'', cs_host = Some a, cs_port = None\<rparr>"
  let ?h = "\<lambda>p a. \<lparr>remoteRunning = True,
      remoteClient = Some \<lparr>connected = True,
        leaderSession = Some \<lparr>connectionInfo = ?ci p, transport_insecure = False\<rparr>,
        followerSession = None\<rparr>,
      remoteConfig = Some (?conf a)\<rparr>"
  have c: "isConnected (?h p a) = Inr True" for p a
    by (simp add: isConnected_def isRunning_def)
  have i: "getCurrentConnectionInfo (?h p a) = Some (?ci p)" for p a
    by (simp add: getCurrentConnectionInfo_def getClient_def isRunning_def)
  have r: "getControlServerConfig (?h p a) = Some (?conf a)" for p a
    by (simp add: getControlServerConfig_def)
  have "isCurrentConnectionDefault ?a ?t (?h 7000 ''example.org:7000'') = Inr True"
    using current_connection_default_iff [of ?a ?t "?h 7000 ''example.org:7000''"]
    by (simp add: c i r)
  moreover have "isCurrentConnectionDefault ?a ?t (?h 7001 ''example.org:7000'') \<noteq> Inr True"
    using current_connection_default_iff [of ?a ?t "?h 7001 ''example.org:7000''"]
    by (simp add: c i r)
  moreover have "isCurrentConnectionDefault ?a ?t (?h 7000 ''example.org:x'') = Inr False"
    using current_connection_default_iff [of ?a ?t "?h 7000 ''example.org:x''"
        "?ci 7000" "?conf ''example.org:x''" "''example.org:x''"]
    by (simp add: c i r)
  moreover have "isCurrentConnectionDefault ?a ?t
     \<lparr>remoteRunning = True,
      remoteClient = Some \<lparr>connected = True, leaderSession = None,
        followerSession = Some \<lparr>connectionInfo = \<lparr>hostname = ''localhost'', mode = FOLLOWER,
          key = ''k1'', port = 6837, insecure = False\<rparr>, transport_insecure = True\<rparr>\<rparr>,
      remoteConfig = Some \<lparr>cs_autoconnect = Some True, cs_selfHosted = Some True,
        cs_connectionMode = Some 0, cs_key = Some ''k1'', cs_host = None,
        cs_port = None\<rparr>\<rparr> = Inr True"
    (is "isCurrentConnectionDefault ?a ?t ?sh = Inr True")
  proof -
    have "isConnected ?sh = Inr True"
      by (simp add: isConnected_def isRunning_def)
    moreover have "getCurrentConnectionInfo ?sh =
        Some \<lparr>hostname = ''localhost'', mode = FOLLOWER, key = ''k1'', port = 6837,
              insecure = True\<rparr>"
      by (simp add: getCurrentConnectionInfo_def getClient_def isRunning_def)
    moreover have "getControlServerConfig ?sh =
        Some \<lparr>cs_autoconnect = Some True, cs_selfHosted = Some True,
          cs_connectionMode = Some 0, cs_key = Some ''k1'', cs_host = None, cs_port = None\<rparr>"
      by (simp add: getControlServerConfig_def)
    ultimately show ?thesis
      using current_connection_default_iff [of ?a ?t ?sh]
      by simp
  qed
  ultimately show ?thesis by simp
qed

subsection \<open>Writing the auto-connect record\<close>

text \<open>
  Claim C8. \<^verbatim>\<open>setAsAutoConnect(conn)\<close> writes the \<^verbatim>\<open>controlServer\<close> section so that
  afterwards \<^verbatim>\<open>autoconnect\<close> is true, \<^verbatim>\<open>selfHosted\<close> and \<^verbatim>\<open>key\<close> are the
  connection's, and \<^verbatim>\<open>connectionMode\<close> is 1 for the mode \<^verbatim>\<open>"leader"\<close> and 0
  otherwise. For a self-hosted connection the section's port is the connection's port and
  its host is left as it was; otherwise the host is the connection's host, followed by a
  colon and the port in decimal when the port is not 6837, and the section's port is left
  as it was.
\<close>

theorem set_as_auto_connect_record:
  assumes "remoteConfig h = Some cs"
  shows "\<exists>cs'. setAsAutoConnect c h = Inr (h\<lparr>remoteConfig := Some cs'\<rparr>) \<and>
       cs_autoconnect cs' = Some True \<and>
       cs_selfHosted cs' = Some (get_or (conn_selfHosted c) False) \<and>
       cs_connectionMode cs' = Some (if conn_mode c = ''leader'' then 1 else 0) \<and>
       cs_key cs' = Some (conn_key c) \<and>
       (if get_or (conn_selfHosted c) False
        then cs_port cs' = Some (conn_port c) \<and> cs_host cs' = cs_host cs
        else cs_host cs' =
               Some (if conn_port c = 6837 then conn_host c
                     else conn_host c @ '':'' @ str_int (conn_port c)) \<and>
             cs_port cs' = cs_port cs)"
proof -
  let ?cs1 = "cs\<lparr>cs_autoconnect := Some True,
                  cs_selfHosted := Some (get_or (conn_selfHosted c) False),
                  cs_connectionMode := Some (if conn_mode c = ''leader'' then 1 else 0),
                  cs_key := Some (conn_key c)\<rparr>"
  let ?cs2 = "if get_or (conn_selfHosted c) False then ?cs1\<lparr>cs_port := Some (conn_port c)\<rparr>
              else ?cs1\<lparr>cs_host := Some
                        (if conn_port c \<noteq> 6837
                         then conn_host c @ '':'' @ str_int (conn_port c)
                         else conn_host c)\<rparr>"
  have "setAsAutoConnect c h = Inr (h\<lparr>remoteConfig := Some ?cs2\<rparr>)"
    using assms by (simp add: setAsAutoConnect_def Let_def)
  moreover have "cs_autoconnect ?cs2 = Some True"
    and "cs_selfHosted ?cs2 = Some (get_or (conn_selfHosted c) False)"
    and "cs_connectionMode ?cs2 = Some (if conn_mode c = ''leader'' then 1 else 0)"
    and "cs_key ?cs2 = Some (conn_key c)"
    by simp_all
  moreover have "if get_or (conn_selfHosted c) False
        then cs_port ?cs2 = Some (conn_port c) \<and> cs_host ?cs2 = cs_host cs
        else cs_host ?cs2 =
               Some (if conn_port c = 6837 then conn_host c
                     else conn_host c @ '':'' @ str_int (conn_port c)) \<and>
             cs_port ?cs2 = cs_port cs"
    by simp
  ultimately show ?thesis
    by (intro exI [of _ ?cs2] conjI)
qed

text \<open>
  The theorem at three connections: \<^verbatim>\<open>example.org\<close> on port 7000 in mode
  \<^verbatim>\<open>leader\<close>, where the host becomes \<^verbatim>\<open>example.org:7000\<close>; \<^verbatim>\<open>example.org\<close> on
  port 6837 in mode \<^verbatim>\<open>follower\<close> and without \<^verbatim>\<open>selfHosted\<close> member, where the host
  is the bare \<^verbatim>\<open>example.org\<close> and the section's port stays; and a self-hosted one on
  port 7001, where the port is written and the section's host stays.
\<close>

theorem set_as_auto_connect_record_witness:
  "setAsAutoConnect
     \<lparr>conn_id = ''c1'', conn_name = ''Home PC'', conn_host = ''example.org'', conn_key = ''1234567'',
      conn_port = 7000, conn_mode = ''leader'', conn_selfHosted = Some False\<rparr>
     \<lparr>remoteRunning = True, remoteClient = None,
      remoteConfig = Some \<lparr>cs_autoconnect = Some False, cs_selfHosted = Some True,
        cs_connectionMode = Some 0, cs_key = Some [], cs_host = Some [], cs_port = Some 6837\<rparr>\<rparr> =
   Inr \<lparr>remoteRunning = True, remoteClient = None,
      remoteConfig = Some \<lparr>cs_autoconnect = Some True, cs_selfHosted = Some False,
        cs_connectionMode = Some 1, cs_key = Some ''1234567'', cs_host = Some ''example.org:7000'',
        cs_port = Some 6837\<rparr>\<rparr> \<and>
   setAsAutoConnect
     \<lparr>conn_id = ''c2'', conn_name = ''Office'', conn_host = ''example.org'', conn_key = ''k'',
      conn_port = 6837, conn_mode = ''follower'', conn_selfHosted = None\<rparr>
     \<lparr>remoteRunning = True, remoteClient = None,
      remoteConfig = Some \<lparr>cs_autoconnect = Some False, cs_selfHosted = Some True,
        cs_connectionMode = Some 1, cs_key = Some [], cs_host = Some [], cs_port = Some 7000\<rparr>\<rparr> =
   Inr \<lparr>remoteRunning = True, remoteClient = None,
      remoteConfig = Some \<lparr>cs_autoconnect = Some True, cs_selfHosted = Some False,
        cs_connectionMode = Some 0, cs_key = Some ''k'', cs_host = Some ''example.org'',
        cs_port = Some 7000\<rparr>\<rparr> \<and>
   setAsAutoConnect
     \<lparr>conn_id = ''c3'', conn_name = ''Local'', conn_host = ''localhost'', conn_key = ''k'',
      conn_port = 7001, conn_mode = ''leader'', conn_selfHosted = Some True\<rparr>
     \<lparr>remoteRunning = True, remoteClient = None,
      remoteConfig = Some \<lparr>cs_autoconnect = Some False, cs_selfHosted = Some False,
        cs_connectionMode = Some 0, cs_key = Some [], cs_host = Some ''example.org'',
        cs_port = Some 6837\<rparr>\<rparr> =
   Inr \<lparr>remoteRunning = True, remoteClient = None,
      remoteConfig = Some \<lparr>cs_autoconnect = Some True, cs_selfHosted = Some True,
        cs_connectionMode = Some 1, cs_key = Some ''k'', cs_host = Some ''example.org'',
        cs_port = Some 7001\<rparr>\<rparr>"
proof -
  have s: "str_int 7000 = ''7000''"
    by (simp add: str_int_def digit_char_def)
  have inst: "setAsAutoConnect c \<lparr>remoteRunning = True, remoteClient = None, remoteConfig = Some cs\<rparr> =
      Inr \<lparr>remoteRunning = True, remoteClient = None, remoteConfig = Some cs'\<rparr>"
    if "cs_autoconnect cs' = Some True"
      and "cs_selfHosted cs' = Some (get_or (conn_selfHosted c) False)"
      and "cs_connectionMode cs' = Some (if conn_mode c = ''leader'' then 1 else 0)"
      and "cs_key cs' = Some (conn_key c)"
      and "cs_host cs' = (if get_or (conn_selfHosted c) False then cs_host cs
             else Some (if conn_port c = 6837 then conn_host c
                        else conn_host c @ '':'' @ str_int (conn_port c)))"
      and "cs_port cs' = (if get_or (conn_selfHosted c) False then Some (conn_port c)
             else cs_port cs)"
    for c cs cs'
  proof -
    let ?h = "\<lparr>remoteRunning = True, remoteClient = None, remoteConfig = Some cs\<rparr>"
    have r: "remoteConfig ?h = Some cs" by simp
    from set_as_auto_connect_record [OF r, of c] obtain cs'' where
      a: "setAsAutoConnect c ?h = Inr (?h\<lparr>remoteConfig := Some cs''\<rparr>)" and
      b: "cs_autoconnect cs'' = Some True"
         "cs_selfHosted cs'' = Some (get_or (conn_selfHosted c) False)"
         "cs_connectionMode cs'' = Some (if conn_mode c = ''leader'' then 1 else 0)"
         "cs_key cs'' = Some (conn_key c)"
         "if get_or (conn_selfHosted c) False
          then cs_port cs'' = Some (conn_port c) \<and> cs_host cs'' = cs_host cs
          else cs_host cs'' =
               Some (if conn_port c = 6837 then conn_host c
                     else conn_host c @ '':'' @ str_int (conn_port c)) \<and>
             cs_port cs'' = cs_port cs"
      by blast
    from b that have "cs'' = cs'"
      by (cases cs''; cases cs') (simp split: if_splits)
    with a show ?thesis by simp
  qed
  show ?thesis
    by (intro conjI inst) (simp_all add: s)
qed

section \<open>Groups\<close>

lemma has_key_map_of: "has_key kvs k \<longleftrightarrow> map_of kvs k \<noteq> None"
  by (simp add: has_key_def map_of_eq_None_iff)

lemma keys_delitem: "map fst (delitem kvs k) = filter (\<lambda>k'. k' \<noteq> k) (map fst kvs)"
  by (induction kvs) (auto simp: delitem_def)

lemma has_key_delitem: "has_key (delitem kvs k) k' \<longleftrightarrow> k' \<noteq> k \<and> has_key kvs k'"
  by (auto simp: has_key_def keys_delitem)

lemma map_of_delitem: "map_of (delitem kvs k) k' = (if k' = k then None else map_of kvs k')"
  by (induction kvs) (auto simp: delitem_def)

lemma data_saveConfig [simp]: "data (saveConfig ok m) = data m"
  by (simp add: saveConfig_def)

text \<open>
  Claim C10. A successful \<^verbatim>\<open>renameGroup(old, new)\<close> (the groups are a dict that has
  \<^verbatim>\<open>old\<close>, which is not \<^verbatim>\<open>"Default"\<close>, and does not have \<^verbatim>\<open>new\<close>) returns true
  and does not keep the group's place: \<^verbatim>\<open>getGroups()\<close> afterwards is the old sequence
  without \<^verbatim>\<open>old\<close>, the other names in their order, followed by \<^verbatim>\<open>new\<close> as last
  element. The connections under the new name are those the old name had.
\<close>

theorem rename_group_goes_last:
  assumes "groups (data m) = JObj g" and "has_key g oldName" and "oldName \<noteq> DEFAULT_GROUP"
    and "\<not> has_key g newName"
  shows "\<exists>m'. renameGroup ok oldName newName m = Inr (True, m') \<and>
           getGroups m = Inr (map fst g) \<and>
           getGroups m' = Inr (filter (\<lambda>k. k \<noteq> oldName) (map fst g) @ [newName]) \<and>
           getConnections newName m' = getConnections oldName m"
proof -
  from assms(2) obtain v where v: "map_of g oldName = Some v"
    by (auto simp: has_key_map_of)
  let ?g2 = "delitem g oldName @ [(newName, v)]"
  let ?m' = "saveConfig ok (m\<lparr>data := (data m)
                \<lparr>groups := JObj ?g2,
                 active_group := (if active_group (data m) = JStr oldName then JStr newName
                                  else active_group (data m))\<rparr>\<rparr>)"
  have n: "\<not> has_key (delitem g oldName) newName"
    using assms(4) by (simp add: has_key_delitem)
  have "renameGroup ok oldName newName m = Inr (True, ?m')"
    using assms v n by (simp add: renameGroup_def raise_or_def setitem_absent)
  moreover have "getGroups m = Inr (map fst g)"
    using assms(1) by (simp add: getGroups_def)
  moreover have "getGroups ?m' = Inr (filter (\<lambda>k. k \<noteq> oldName) (map fst g) @ [newName])"
    by (simp add: getGroups_def keys_delitem)
  moreover have "getConnections newName ?m' = getConnections oldName m"
    using assms(1) v n by (simp add: getConnections_def has_key_map_of map_add_def)
  ultimately show ?thesis by blast
qed

text \<open>
  The theorem at the groups \<^verbatim>\<open>Default\<close>, \<^verbatim>\<open>Work\<close>, \<^verbatim>\<open>Home\<close>: renaming
  \<^verbatim>\<open>Work\<close> to \<^verbatim>\<open>Office\<close> gives \<^verbatim>\<open>Default\<close>, \<^verbatim>\<open>Home\<close>, \<^verbatim>\<open>Office\<close>.
\<close>

theorem rename_group_goes_last_witness:
  "getGroups \<lparr>data = \<lparr>active_group = JStr ''Work'', close_on_connect = JBool True,
        groups = JObj [(''Default'', JArr []), (''Work'', JArr [JObj [(''id'', JStr ''a'')]]),
                       (''Home'', JArr [])],
        extras = []\<rparr>, disk = Missing\<rparr> = Inr [''Default'', ''Work'', ''Home''] \<and>
   (case renameGroup True ''Work'' ''Office''
        \<lparr>data = \<lparr>active_group = JStr ''Work'', close_on_connect = JBool True,
           groups = JObj [(''Default'', JArr []), (''Work'', JArr [JObj [(''id'', JStr ''a'')]]),
                          (''Home'', JArr [])],
           extras = []\<rparr>, disk = Missing\<rparr> of
      Inl e \<Rightarrow> False
    | Inr (r, m') \<Rightarrow> r \<and> getGroups m' = Inr [''Default'', ''Home'', ''Office''] \<and>
        getConnections ''Office'' m' = Inr (JArr [JObj [(''id'', JStr ''a'')]]))"
proof -
  let ?g = "[(''Default'', JArr []), (''Work'', JArr [JObj [(''id'', JStr ''a'')]]),
            (''Home'', JArr [])]"
  let ?m = "\<lparr>data = \<lparr>active_group = JStr ''Work'', close_on_connect = JBool True,
        groups = JObj ?g, extras = []\<rparr>, disk = Missing\<rparr>"
  have h: "groups (data ?m) = JObj ?g" "has_key ?g ''Work''" "''Work'' \<noteq> DEFAULT_GROUP"
    "\<not> has_key ?g ''Office''"
    by (simp_all add: has_key_def DEFAULT_GROUP_def)
  from rename_group_goes_last [OF h, of True] obtain m' where
    "renameGroup True ''Work'' ''Office'' ?m = Inr (True, m')"
    "getGroups ?m = Inr (map fst ?g)"
    "getGroups m' = Inr (filter (\<lambda>k. k \<noteq> ''Work'') (map fst ?g) @ [''Office''])"
    "getConnections ''Office'' m' = getConnections ''Work'' ?m"
    by blast
  then show ?thesis
    by (simp add: getConnections_def)
qed

text \<open>
  Claim C4. Let the groups be a dict in which \<^verbatim>\<open>"Default"\<close> holds the list \<open>ds\<close> and
  a group \<open>g\<close> other than \<^verbatim>\<open>"Default"\<close> holds the list \<open>xs\<close>. Then
  \<^verbatim>\<open>deleteGroup(g, True)\<close> returns true; afterwards \<^verbatim>\<open>"Default"\<close> holds \<open>ds\<close>
  followed by \<open>xs\<close>, \<^verbatim>\<open>getGroups()\<close> is the old sequence without \<open>g\<close>, every other
  group holds what it held, and the active group is \<^verbatim>\<open>"Default"\<close> if it was \<open>g\<close>
  and is unchanged otherwise. \<^verbatim>\<open>deleteGroup\<close> returns false and changes nothing, in
  memory or on disk, when \<open>g\<close> is \<^verbatim>\<open>"Default"\<close> or is not a key of the groups.
\<close>

theorem delete_group_moves_to_default:
  "(groups (data m) = JObj g \<and> groupName \<noteq> DEFAULT_GROUP \<and>
    map_of g groupName = Some (JArr xs) \<and> map_of g DEFAULT_GROUP = Some (JArr ds) \<longrightarrow>
      (\<exists>m'. deleteGroup ok groupName True m = Inr (True, m') \<and>
         getConnections DEFAULT_GROUP m' = Inr (JArr (ds @ xs)) \<and>
         getGroups m' = Inr (filter (\<lambda>k. k \<noteq> groupName) (map fst g)) \<and>
         groupName \<notin> set (filter (\<lambda>k. k \<noteq> groupName) (map fst g)) \<and>
         (\<forall>k. k \<noteq> groupName \<and> k \<noteq> DEFAULT_GROUP \<longrightarrow>
            getConnections k m' = getConnections k m) \<and>
         active_group (data m') =
           (if active_group (data m) = JStr groupName then JStr DEFAULT_GROUP
            else active_group (data m)))) \<and>
   (groupName = DEFAULT_GROUP \<longrightarrow> deleteGroup ok groupName mv m = Inr (False, m)) \<and>
   (groups (data m) = JObj g \<and> \<not> has_key g groupName \<longrightarrow>
      deleteGroup ok groupName mv m = Inr (False, m))"
proof (intro conjI impI)
  assume a: "groups (data m) = JObj g \<and> groupName \<noteq> DEFAULT_GROUP \<and>
    map_of g groupName = Some (JArr xs) \<and> map_of g DEFAULT_GROUP = Some (JArr ds)"
  let ?g1 = "setitem g DEFAULT_GROUP (JArr (ds @ xs))"
  let ?g2 = "delitem ?g1 groupName"
  let ?m' = "saveConfig ok (m\<lparr>data := (data m)
              \<lparr>groups := JObj ?g2,
               active_group := (if active_group (data m) = JStr groupName then JStr DEFAULT_GROUP
                                else active_group (data m))\<rparr>\<rparr>)"
  from a have hk: "has_key g groupName" "has_key g DEFAULT_GROUP"
    by (simp_all add: has_key_map_of)
  have del: "deleteGroup ok groupName True m = Inr (True, ?m')"
    using a hk by (simp add: deleteGroup_def raise_or_def has_key_setitem)
  have conns: "getConnections DEFAULT_GROUP ?m' = Inr (JArr (ds @ xs))"
    using a by (auto simp: getConnections_def map_of_delitem map_of_setitem)
  have keys: "getGroups ?m' = Inr (filter (\<lambda>k. k \<noteq> groupName) (map fst g))"
    using hk by (simp add: getGroups_def keys_delitem keys_setitem)
  have others: "\<forall>k. k \<noteq> groupName \<and> k \<noteq> DEFAULT_GROUP \<longrightarrow>
            getConnections k ?m' = getConnections k m"
    using a by (simp add: getConnections_def map_of_delitem map_of_setitem)
  have act: "active_group (data ?m') =
           (if active_group (data m) = JStr groupName then JStr DEFAULT_GROUP
            else active_group (data m))"
    by simp
  from del conns keys others act
  show "\<exists>m'. deleteGroup ok groupName True m = Inr (True, m') \<and>
         getConnections DEFAULT_GROUP m' = Inr (JArr (ds @ xs)) \<and>
         getGroups m' = Inr (filter (\<lambda>k. k \<noteq> groupName) (map fst g)) \<and>
         groupName \<notin> set (filter (\<lambda>k. k \<noteq> groupName) (map fst g)) \<and>
         (\<forall>k. k \<noteq> groupName \<and> k \<noteq> DEFAULT_GROUP \<longrightarrow>
            getConnections k m' = getConnections k m) \<and>
         active_group (data m') =
           (if active_group (data m) = JStr groupName then JStr DEFAULT_GROUP
            else active_group (data m))"
    by (intro exI [of _ ?m']) simp
next
  assume "groupName = DEFAULT_GROUP"
  then show "deleteGroup ok groupName mv m = Inr (False, m)"
    by (simp add: deleteGroup_def)
next
  assume "groups (data m) = JObj g \<and> \<not> has_key g groupName"
  then show "deleteGroup ok groupName mv m = Inr (False, m)"
    by (simp add: deleteGroup_def raise_or_def)
qed

text \<open>
  The theorem at a store whose group \<^verbatim>\<open>Work\<close> is active and holds two connections,
  and, for the failures, at the skeleton: deleting \<^verbatim>\<open>Default\<close> and deleting a group
  that is not there.
\<close>

theorem delete_group_moves_to_default_witness:
  "(case deleteGroup True ''Work'' True
        \<lparr>data = \<lparr>active_group = JStr ''Work'', close_on_connect = JBool True,
           groups = JObj [(''Default'', JArr [JObj [(''id'', JStr ''a'')]]),
                          (''Work'', JArr [JObj [(''id'', JStr ''b'')], JObj [(''id'', JStr ''c'')]])],
           extras = []\<rparr>, disk = Missing\<rparr> of
      Inl e \<Rightarrow> False
    | Inr (r, m') \<Rightarrow> r \<and> getGroups m' = Inr [''Default''] \<and>
        getConnections ''Default'' m' =
          Inr (JArr [JObj [(''id'', JStr ''a'')], JObj [(''id'', JStr ''b'')],
                     JObj [(''id'', JStr ''c'')]]) \<and>
        active_group (data m') = JStr ''Default'') \<and>
   deleteGroup True ''Default'' True
        \<lparr>data = getDefaultData, disk = Missing\<rparr> =
     Inr (False, \<lparr>data = getDefaultData, disk = Missing\<rparr>) \<and>
   deleteGroup True ''Work'' True
        \<lparr>data = getDefaultData, disk = Missing\<rparr> =
     Inr (False, \<lparr>data = getDefaultData, disk = Missing\<rparr>)"
proof -
  let ?xs = "[JObj [(''id'', JStr ''b'')], JObj [(''id'', JStr ''c'')]]"
  let ?ds = "[JObj [(''id'', JStr ''a'')]]"
  let ?g = "[(''Default'', JArr ?ds), (''Work'', JArr ?xs)]"
  let ?m = "\<lparr>data = \<lparr>active_group = JStr ''Work'', close_on_connect = JBool True,
        groups = JObj ?g, extras = []\<rparr>, disk = Missing\<rparr>"
  let ?sk = "\<lparr>data = getDefaultData, disk = Missing\<rparr>"
  have h: "groups (data ?m) = JObj ?g \<and> ''Work'' \<noteq> DEFAULT_GROUP \<and>
      map_of ?g ''Work'' = Some (JArr ?xs) \<and> map_of ?g DEFAULT_GROUP = Some (JArr ?ds)"
    by (simp add: DEFAULT_GROUP_def)
  from delete_group_moves_to_default
      [where m = ?m and g = ?g and groupName = "''Work''" and xs = ?xs and ds = ?ds and ok = True] h
  obtain m' where
    "deleteGroup True ''Work'' True ?m = Inr (True, m')"
    "getConnections DEFAULT_GROUP m' = Inr (JArr (?ds @ ?xs))"
    "getGroups m' = Inr (filter (\<lambda>k. k \<noteq> ''Work'') (map fst ?g))"
    "active_group (data m') =
           (if active_group (data ?m) = JStr ''Work'' then JStr DEFAULT_GROUP
            else active_group (data ?m))"
    by blast
  then have 1: "case deleteGroup True ''Work'' True ?m of
      Inl e \<Rightarrow> False
    | Inr (r, m') \<Rightarrow> r \<and> getGroups m' = Inr [''Default''] \<and>
        getConnections ''Default'' m' =
          Inr (JArr [JObj [(''id'', JStr ''a'')], JObj [(''id'', JStr ''b'')],
                     JObj [(''id'', JStr ''c'')]]) \<and>
        active_group (data m') = JStr ''Default''"
    by (simp add: DEFAULT_GROUP_def)
  have 2: "deleteGroup True ''Default'' True ?sk = Inr (False, ?sk)"
    using delete_group_moves_to_default
      [where m = ?sk and groupName = "''Default''" and ok = True and mv = True]
    by (simp add: DEFAULT_GROUP_def)
  have k: "groups (data ?sk) = JObj [(''Default'', JArr [])] \<and>
      \<not> has_key [(''Default'', JArr [])] ''Work''"
    by (simp add: getDefaultData_def DEFAULT_GROUP_def has_key_def)
  have 3: "deleteGroup True ''Work'' True ?sk = Inr (False, ?sk)"
    using delete_group_moves_to_default
      [where m = ?sk and g = "[(''Default'', JArr [])]" and groupName = "''Work''" and ok = True
         and mv = True] k
    by blast
  from 1 2 3 show ?thesis by blast
qed

section \<open>Connections\<close>

lemma find_conn_None:
  "\<forall>c\<in>set xs. \<exists>v. py_getitem c ''id'' = Inr v \<and> v \<noteq> JStr connId \<Longrightarrow>
   find_conn xs connId = Inr None"
  by (induction xs) (auto simp: raise_or_def)

lemma find_conn_Some:
  "i < length xs \<Longrightarrow> py_getitem (xs ! i) ''id'' = Inr (JStr connId) \<Longrightarrow>
   \<forall>j<i. \<exists>v. py_getitem (xs ! j) ''id'' = Inr v \<and> v \<noteq> JStr connId \<Longrightarrow>
   find_conn xs connId = Inr (Some i)"
proof (induction xs arbitrary: i)
  case Nil
  then show ?case by simp
next
  case (Cons c cs)
  show ?case
  proof (cases i)
    case 0
    with Cons.prems show ?thesis by (simp add: raise_or_def)
  next
    case (Suc i')
    from Cons.prems(3) Suc obtain v where v: "py_getitem c ''id'' = Inr v" "v \<noteq> JStr connId"
      by force
    have "find_conn cs connId = Inr (Some i')"
    proof (rule Cons.IH)
      show "i' < length cs" using Cons.prems(1) Suc by simp
      show "py_getitem (cs ! i') ''id'' = Inr (JStr connId)" using Cons.prems(2) Suc by simp
      show "\<forall>j<i'. \<exists>v. py_getitem (cs ! j) ''id'' = Inr v \<and> v \<noteq> JStr connId"
        using Cons.prems(3) Suc by force
    qed
    with v Suc show ?thesis by (simp add: raise_or_def)
  qed
qed

text \<open>
  Claim C7. Let the groups be a dict and the direction be 1 or -1.
  \<^verbatim>\<open>moveConnection\<close> returns false and changes nothing, in memory or on disk, when the
  group is absent, when no connection of the group has the id, and when the first
  connection with the id is at index 0 and the direction is -1 or at the last index and the
  direction is 1. In every other case it returns true, and the group's list afterwards is
  the list before with the elements at the found index and at that index plus the
  direction exchanged; the other positions, the other groups and the sequence of group
  names are as before.
\<close>

theorem move_connection_swaps_neighbour:
  "(direction = 1 \<or> direction = - 1) \<and> groups (data m) = JObj g \<longrightarrow>
   (\<not> has_key g groupName \<longrightarrow> moveConnection ok groupName connId direction m = Inr (False, m)) \<and>
   (map_of g groupName = Some (JArr xs) \<and>
    (\<forall>c\<in>set xs. \<exists>v. py_getitem c ''id'' = Inr v \<and> v \<noteq> JStr connId) \<longrightarrow>
      moveConnection ok groupName connId direction m = Inr (False, m)) \<and>
   (map_of g groupName = Some (JArr xs) \<and> i < length xs \<and>
    py_getitem (xs ! i) ''id'' = Inr (JStr connId) \<and>
    (\<forall>j<i. \<exists>v. py_getitem (xs ! j) ''id'' = Inr v \<and> v \<noteq> JStr connId) \<longrightarrow>
      (if (i = 0 \<and> direction = - 1) \<or> (i = length xs - 1 \<and> direction = 1)
       then moveConnection ok groupName connId direction m = Inr (False, m)
       else (\<exists>m' xs'. moveConnection ok groupName connId direction m = Inr (True, m') \<and>
               getConnections groupName m' = Inr (JArr xs') \<and>
               length xs' = length xs \<and>
               xs' ! i = xs ! nat (int i + direction) \<and>
               xs' ! nat (int i + direction) = xs ! i \<and>
               (\<forall>j<length xs. j \<noteq> i \<and> j \<noteq> nat (int i + direction) \<longrightarrow> xs' ! j = xs ! j) \<and>
               (\<forall>k. k \<noteq> groupName \<longrightarrow> getConnections k m' = getConnections k m) \<and>
               getGroups m' = getGroups m)))"
proof (intro impI conjI)
  assume d: "(direction = 1 \<or> direction = - 1) \<and> groups (data m) = JObj g"
  assume "\<not> has_key g groupName"
  with d show "moveConnection ok groupName connId direction m = Inr (False, m)"
    by (simp add: moveConnection_def raise_or_def)
next
  assume d: "(direction = 1 \<or> direction = - 1) \<and> groups (data m) = JObj g"
  assume a: "map_of g groupName = Some (JArr xs) \<and>
    (\<forall>c\<in>set xs. \<exists>v. py_getitem c ''id'' = Inr v \<and> v \<noteq> JStr connId)"
  then have "find_conn xs connId = Inr None"
    by (simp add: find_conn_None)
  with d a show "moveConnection ok groupName connId direction m = Inr (False, m)"
    by (simp add: moveConnection_def raise_or_def has_key_map_of)
next
  assume d: "(direction = 1 \<or> direction = - 1) \<and> groups (data m) = JObj g"
  assume a: "map_of g groupName = Some (JArr xs) \<and> i < length xs \<and>
    py_getitem (xs ! i) ''id'' = Inr (JStr connId) \<and>
    (\<forall>j<i. \<exists>v. py_getitem (xs ! j) ''id'' = Inr v \<and> v \<noteq> JStr connId)"
  then have f: "find_conn xs connId = Inr (Some i)"
    by (simp add: find_conn_Some)
  let ?n = "nat (int i + direction)"
  let ?xs' = "xs[i := xs ! ?n, ?n := xs ! i]"
  let ?m' = "saveConfig ok (set_groups m (JObj (setitem g groupName (JArr ?xs'))))"
  show "if (i = 0 \<and> direction = - 1) \<or> (i = length xs - 1 \<and> direction = 1)
       then moveConnection ok groupName connId direction m = Inr (False, m)
       else (\<exists>m' xs'. moveConnection ok groupName connId direction m = Inr (True, m') \<and>
               getConnections groupName m' = Inr (JArr xs') \<and>
               length xs' = length xs \<and>
               xs' ! i = xs ! nat (int i + direction) \<and>
               xs' ! nat (int i + direction) = xs ! i \<and>
               (\<forall>j<length xs. j \<noteq> i \<and> j \<noteq> nat (int i + direction) \<longrightarrow> xs' ! j = xs ! j) \<and>
               (\<forall>k. k \<noteq> groupName \<longrightarrow> getConnections k m' = getConnections k m) \<and>
               getGroups m' = getGroups m)"
  proof (cases "(i = 0 \<and> direction = - 1) \<or> (i = length xs - 1 \<and> direction = 1)")
    case True
    with a have "\<not> (0 \<le> int i + direction \<and> int i + direction < int (length xs))"
      by auto
    with d a f True show ?thesis
      by (simp add: moveConnection_def raise_or_def has_key_map_of Let_def)
  next
    case False
    with d a have r: "0 \<le> int i + direction \<and> int i + direction < int (length xs)"
      by auto
    then have n: "?n < length xs" by linarith
    from False d have ni: "?n \<noteq> i" by auto
    have mv: "moveConnection ok groupName connId direction m = Inr (True, ?m')"
      using d a f r by (simp add: moveConnection_def raise_or_def has_key_map_of Let_def)
    have gc: "getConnections groupName ?m' = Inr (JArr ?xs')"
      by (simp add: getConnections_def set_groups_def map_of_setitem)
    have oth: "\<forall>k. k \<noteq> groupName \<longrightarrow> getConnections k ?m' = getConnections k m"
      using d by (simp add: getConnections_def set_groups_def map_of_setitem)
    have gg: "getGroups ?m' = getGroups m"
      using d a by (simp add: getGroups_def set_groups_def keys_setitem has_key_map_of)
    have l: "length ?xs' = length xs" by simp
    have e1: "?xs' ! i = xs ! ?n"
      using a ni by (simp add: nth_list_update)
    have e2: "?xs' ! ?n = xs ! i"
      using n by (simp add: nth_list_update)
    have e3: "\<forall>j<length xs. j \<noteq> i \<and> j \<noteq> ?n \<longrightarrow> ?xs' ! j = xs ! j"
      by (simp add: nth_list_update)
    from mv gc oth gg l e1 e2 e3
    have "\<exists>m' xs'. moveConnection ok groupName connId direction m = Inr (True, m') \<and>
               getConnections groupName m' = Inr (JArr xs') \<and>
               length xs' = length xs \<and>
               xs' ! i = xs ! nat (int i + direction) \<and>
               xs' ! nat (int i + direction) = xs ! i \<and>
               (\<forall>j<length xs. j \<noteq> i \<and> j \<noteq> nat (int i + direction) \<longrightarrow> xs' ! j = xs ! j) \<and>
               (\<forall>k. k \<noteq> groupName \<longrightarrow> getConnections k m' = getConnections k m) \<and>
               getGroups m' = getGroups m"
      by blast
    with False show ?thesis
      by (simp only: if_False)
  qed
qed

text \<open>
  The theorem at a group that is absent, and at the list \<open>a\<close>, \<open>b\<close>, \<open>c\<close>: an id
  \<open>d\<close> that is absent, moving \<open>a\<close> up and moving \<open>c\<close> down return false and
  change nothing; moving \<open>b\<close> down gives \<open>a\<close>, \<open>c\<close>, \<open>b\<close>.
\<close>

theorem move_connection_swaps_neighbour_witness:
  "moveConnection True ''Work'' ''a'' 1 \<lparr>data = getDefaultData, disk = Missing\<rparr> =
     Inr (False, \<lparr>data = getDefaultData, disk = Missing\<rparr>) \<and>
   moveConnection True ''Default'' ''d'' 1
      \<lparr>data = getDefaultData\<lparr>groups := JObj [(''Default'',
         JArr [JObj [(''id'', JStr ''a'')], JObj [(''id'', JStr ''b'')], JObj [(''id'', JStr ''c'')]])]\<rparr>,
       disk = Missing\<rparr> =
     Inr (False, \<lparr>data = getDefaultData\<lparr>groups := JObj [(''Default'',
         JArr [JObj [(''id'', JStr ''a'')], JObj [(''id'', JStr ''b'')], JObj [(''id'', JStr ''c'')]])]\<rparr>,
       disk = Missing\<rparr>) \<and>
   moveConnection True ''Default'' ''a'' (- 1)
      \<lparr>data = getDefaultData\<lparr>groups := JObj [(''Default'',
         JArr [JObj [(''id'', JStr ''a'')], JObj [(''id'', JStr ''b'')], JObj [(''id'', JStr ''c'')]])]\<rparr>,
       disk = Missing\<rparr> =
     Inr (False, \<lparr>data = getDefaultData\<lparr>groups := JObj [(''Default'',
         JArr [JObj [(''id'', JStr ''a'')], JObj [(''id'', JStr ''b'')], JObj [(''id'', JStr ''c'')]])]\<rparr>,
       disk = Missing\<rparr>) \<and>
   moveConnection True ''Default'' ''c'' 1
      \<lparr>data = getDefaultData\<lparr>groups := JObj [(''Default'',
         JArr [JObj [(''id'', JStr ''a'')], JObj [(''id'', JStr ''b'')], JObj [(''id'', JStr ''c'')]])]\<rparr>,
       disk = Missing\<rparr> =
     Inr (False, \<lparr>data = getDefaultData\<lparr>groups := JObj [(''Default'',
         JArr [JObj [(''id'', JStr ''a'')], JObj [(''id'', JStr ''b'')], JObj [(''id'', JStr ''c'')]])]\<rparr>,
       disk = Missing\<rparr>) \<and>
   (case moveConnection True ''Default'' ''b'' 1
      \<lparr>data = getDefaultData\<lparr>groups := JObj [(''Default'',
         JArr [JObj [(''id'', JStr ''a'')], JObj [(''id'', JStr ''b'')], JObj [(''id'', JStr ''c'')]])]\<rparr>,
       disk = Missing\<rparr> of
      Inl e \<Rightarrow> False
    | Inr (r, m') \<Rightarrow> r \<and>
        (case getConnections ''Default'' m' of
           Inr (JArr ys) \<Rightarrow> length ys = 3 \<and> ys ! 0 = JObj [(''id'', JStr ''a'')] \<and>
             ys ! 1 = JObj [(''id'', JStr ''c'')] \<and> ys ! 2 = JObj [(''id'', JStr ''b'')]
         | _ \<Rightarrow> False))"
proof -
  let ?xs = "[JObj [(''id'', JStr ''a'')], JObj [(''id'', JStr ''b'')], JObj [(''id'', JStr ''c'')]]"
  let ?g = "[(''Default'', JArr ?xs)]"
  let ?m = "\<lparr>data = getDefaultData\<lparr>groups := JObj ?g\<rparr>, disk = Missing\<rparr>"
  have g: "groups (data ?m) = JObj ?g" by simp
  have lk: "map_of ?g ''Default'' = Some (JArr ?xs)" by simp
  have a: "(0::nat) < length ?xs \<and> py_getitem (?xs ! 0) ''id'' = Inr (JStr ''a'') \<and>
      (\<forall>j<0::nat. \<exists>v. py_getitem (?xs ! j) ''id'' = Inr v \<and> v \<noteq> JStr ''a'')"
    by simp
  have c: "(2::nat) < length ?xs \<and> py_getitem (?xs ! 2) ''id'' = Inr (JStr ''c'') \<and>
      (\<forall>j<2::nat. \<exists>v. py_getitem (?xs ! j) ''id'' = Inr v \<and> v \<noteq> JStr ''c'')"
    by (simp add: less_Suc_eq numeral_2_eq_2)
  have b: "(1::nat) < length ?xs \<and> py_getitem (?xs ! 1) ''id'' = Inr (JStr ''b'') \<and>
      (\<forall>j<1::nat. \<exists>v. py_getitem (?xs ! j) ''id'' = Inr v \<and> v \<noteq> JStr ''b'')"
    by simp
  have 1: "moveConnection True ''Default'' ''a'' (- 1) ?m = Inr (False, ?m)"
    using move_connection_swaps_neighbour
      [where direction = "- 1" and m = ?m and g = ?g and groupName = "''Default''" and xs = ?xs
         and i = 0 and connId = "''a''" and ok = True] g lk a
    by simp
  have 2: "moveConnection True ''Default'' ''c'' 1 ?m = Inr (False, ?m)"
    using move_connection_swaps_neighbour
      [where direction = 1 and m = ?m and g = ?g and groupName = "''Default''" and xs = ?xs
         and i = 2 and connId = "''c''" and ok = True] g lk c
    by simp
  from move_connection_swaps_neighbour
      [where direction = 1 and m = ?m and g = ?g and groupName = "''Default''" and xs = ?xs
         and i = 1 and connId = "''b''" and ok = True] g lk b
  obtain m' xs' where
    "moveConnection True ''Default'' ''b'' 1 ?m = Inr (True, m')"
    "getConnections ''Default'' m' = Inr (JArr xs')"
    "length xs' = length ?xs"
    "xs' ! 1 = ?xs ! nat (int 1 + 1)"
    "xs' ! nat (int 1 + 1) = ?xs ! 1"
    "\<forall>j<length ?xs. j \<noteq> 1 \<and> j \<noteq> nat (int 1 + 1) \<longrightarrow> xs' ! j = ?xs ! j"
    by auto
  then have 3: "case moveConnection True ''Default'' ''b'' 1 ?m of
      Inl e \<Rightarrow> False
    | Inr (r, m') \<Rightarrow> r \<and>
        (case getConnections ''Default'' m' of
           Inr (JArr ys) \<Rightarrow> length ys = 3 \<and> ys ! 0 = JObj [(''id'', JStr ''a'')] \<and>
             ys ! 1 = JObj [(''id'', JStr ''c'')] \<and> ys ! 2 = JObj [(''id'', JStr ''b'')]
         | _ \<Rightarrow> False)"
    by (simp add: nat_add_distrib)
  let ?sk = "\<lparr>data = getDefaultData, disk = Missing\<rparr>"
  have k: "groups (data ?sk) = JObj [(''Default'', JArr [])]"
    "\<not> has_key [(''Default'', JArr [])] ''Work''"
    by (simp_all add: getDefaultData_def DEFAULT_GROUP_def has_key_def)
  have 4: "moveConnection True ''Work'' ''a'' 1 ?sk = Inr (False, ?sk)"
    using move_connection_swaps_neighbour
      [where direction = 1 and m = ?sk and g = "[(''Default'', JArr [])]"
         and groupName = "''Work''" and connId = "''a''" and ok = True] k
    by simp
  have d: "\<forall>c\<in>set ?xs. \<exists>v. py_getitem c ''id'' = Inr v \<and> v \<noteq> JStr ''d''"
    by simp
  have 5: "moveConnection True ''Default'' ''d'' 1 ?m = Inr (False, ?m)"
    using move_connection_swaps_neighbour
      [where direction = 1 and m = ?m and g = ?g and groupName = "''Default''" and xs = ?xs
         and connId = "''d''" and ok = True] g lk d
    by simp
  from 1 2 3 4 5 show ?thesis by blast
qed

section \<open>Saving and loading again\<close>

lemma dict_update_fresh:
  "distinct (map fst (acc @ kvs)) \<Longrightarrow> dict_update acc kvs = acc @ kvs"
proof (induction kvs arbitrary: acc)
  case Nil
  then show ?case by simp
next
  case (Cons kv kvs)
  obtain k v where kv: "kv = (k, v)" by (cases kv)
  from Cons.prems kv have "\<not> has_key acc k"
    by (auto simp: has_key_def)
  then have s: "setitem acc k v = acc @ [(k, v)]"
    by (rule setitem_absent)
  from Cons.prems kv have "distinct (map fst ((acc @ [(k, v)]) @ kvs))"
    by simp
  from Cons.IH [OF this] s kv show ?case
    by simp
qed

lemma update_data_extras:
  "\<not> has_key kvs ''active_group'' \<Longrightarrow> \<not> has_key kvs ''close_on_connect'' \<Longrightarrow>
   \<not> has_key kvs ''groups'' \<Longrightarrow>
   update_data d kvs = d\<lparr>extras := dict_update (extras d) kvs\<rparr>"
  by (induction d kvs rule: update_data.induct) (auto simp: has_key_def data_setitem_def)

lemma update_data_items:
  assumes "extras_ok d" and "extras d0 = []"
  shows "update_data d0 (data_items d) = d"
proof -
  let ?d1 = "d0\<lparr>active_group := active_group d, close_on_connect := close_on_connect d,
                groups := groups d\<rparr>"
  have "update_data d0 (data_items d) = update_data ?d1 (extras d)"
    by (simp add: data_items_def data_setitem_def)
  also have "\<dots> = ?d1\<lparr>extras := dict_update (extras ?d1) (extras d)\<rparr>"
    using assms(1) by (intro update_data_extras) (simp_all add: extras_ok_def)
  also have "dict_update (extras ?d1) (extras d) = extras d"
    using assms dict_update_fresh [of "[]" "extras d"] by (simp add: extras_ok_def)
  finally show ?thesis
    by simp
qed

text \<open>
  Claim C3. Let \<^verbatim>\<open>self.data\<close> be a store document in which the groups have the
  default group, as they have in every manager after \<^verbatim>\<open>__init__\<close>. When
  \<^verbatim>\<open>saveConfig\<close> has written it and \<^verbatim>\<open>loadConfig\<close> reads the file into a fresh
  skeleton, the data read is the data saved: the same groups in the same order, the same
  connections with the same members in the same order, the same active group and
  close-on-connect flag, and the same further top-level keys.
\<close>

theorem save_load_round_trip:
  assumes "extras_ok (data m)" and "py_contains (groups (data m)) DEFAULT_GROUP = Inr True"
  shows "loadConfig (disk (saveConfig True m)) getDefaultData = (None, data m)"
proof -
  have "disk (saveConfig True m) = Document (data_items (data m))"
    by (simp add: saveConfig_def)
  moreover have "update_data getDefaultData (data_items (data m)) = data m"
    using assms(1) by (rule update_data_items) (simp add: getDefaultData_def)
  ultimately show ?thesis
    using assms(2) by (simp add: loadConfig_def)
qed

text \<open>
  The theorem at a store with two groups, one connection, the active group \<^verbatim>\<open>Work\<close>,
  close-on-connect off, and a further top-level key \<^verbatim>\<open>version\<close>.
\<close>

theorem save_load_round_trip_witness:
  "loadConfig
     (disk (saveConfig True
        \<lparr>data = \<lparr>active_group = JStr ''Work'', close_on_connect = JBool False,
           groups = JObj [(''Work'', JArr [JObj [(''id'', JStr ''a''), (''port'', JInt 7000)]]),
                          (''Default'', JArr [])],
           extras = [(''version'', JInt 2)]\<rparr>, disk = Missing\<rparr>))
     getDefaultData =
   (None, \<lparr>active_group = JStr ''Work'', close_on_connect = JBool False,
           groups = JObj [(''Work'', JArr [JObj [(''id'', JStr ''a''), (''port'', JInt 7000)]]),
                          (''Default'', JArr [])],
           extras = [(''version'', JInt 2)]\<rparr>)"
proof -
  let ?d = "\<lparr>active_group = JStr ''Work'', close_on_connect = JBool False,
           groups = JObj [(''Work'', JArr [JObj [(''id'', JStr ''a''), (''port'', JInt 7000)]]),
                          (''Default'', JArr [])],
           extras = [(''version'', JInt 2)]\<rparr>"
  let ?m = "\<lparr>data = ?d, disk = Missing\<rparr>"
  have 1: "extras_ok (data ?m)"
    by (simp add: extras_ok_def has_key_def)
  have 2: "py_contains (groups (data ?m)) DEFAULT_GROUP = Inr True"
    by (simp add: has_key_def DEFAULT_GROUP_def)
  from save_load_round_trip [OF 1 2] show ?thesis
    by simp
qed

section \<open>The default group\<close>

lemma has_id_iff: "has_id c \<longleftrightarrow> (\<exists>kvs. c = JObj kvs \<and> has_key kvs ''id'')"
  by (cases c) (auto simp: has_id_def)

lemma is_conn_list_iff: "is_conn_list v \<longleftrightarrow> (\<exists>xs. v = JArr xs \<and> (\<forall>c\<in>set xs. has_id c))"
  by (cases v) (auto simp: is_conn_list_def list_all_iff)

lemma store_ok_iff:
  "store_ok m \<longleftrightarrow>
     extras_ok (data m) \<and>
     (\<exists>g. groups (data m) = JObj g \<and> has_key g DEFAULT_GROUP \<and> distinct (map fst g) \<and>
          (\<forall>kv\<in>set g. is_conn_list (snd kv)))"
  by (cases "groups (data m)") (auto simp: store_ok_def list_all_iff)

lemma store_ok_saveConfig [simp]: "store_ok (saveConfig ok m) = store_ok m"
  by (simp add: store_ok_def)

lemma set_setitem_subset: "set (setitem kvs k v) \<subseteq> insert (k, v) (set kvs)"
  by (induction kvs) (auto split: if_splits)

lemma distinct_setitem: "distinct (map fst kvs) \<Longrightarrow> distinct (map fst (setitem kvs k v))"
  by (simp add: keys_setitem has_key_def)

lemma distinct_delitem: "distinct (map fst kvs) \<Longrightarrow> distinct (map fst (delitem kvs k))"
  by (simp add: keys_delitem)

lemma conns_setitem:
  "\<forall>kv\<in>set g. is_conn_list (snd kv) \<Longrightarrow> is_conn_list v \<Longrightarrow>
   \<forall>kv\<in>set (setitem g k v). is_conn_list (snd kv)"
  using set_setitem_subset [of g k v] by auto

lemma conns_delitem:
  "\<forall>kv\<in>set g. is_conn_list (snd kv) \<Longrightarrow> \<forall>kv\<in>set (delitem g k). is_conn_list (snd kv)"
  by (simp add: delitem_def)

lemma conns_lookup:
  "\<forall>kv\<in>set g. is_conn_list (snd kv) \<Longrightarrow> map_of g k = Some v \<Longrightarrow> is_conn_list v"
  by (drule map_of_SomeD) force

lemma store_ok_set_groups:
  "store_ok m \<Longrightarrow> has_key g DEFAULT_GROUP \<Longrightarrow> distinct (map fst g) \<Longrightarrow>
   \<forall>kv\<in>set g. is_conn_list (snd kv) \<Longrightarrow> store_ok (set_groups m (JObj g))"
  by (simp add: store_ok_iff set_groups_def extras_ok_def)

lemma find_conn_total:
  "\<forall>c\<in>set xs. has_id c \<Longrightarrow>
   find_conn xs connId = Inr None \<or> (\<exists>i<length xs. find_conn xs connId = Inr (Some i))"
proof (induction xs)
  case Nil
  then show ?case by simp
next
  case (Cons c cs)
  then obtain kvs v where c: "c = JObj kvs" "map_of kvs ''id'' = Some v"
    by (auto simp: has_id_iff has_key_map_of)
  from Cons have "find_conn cs connId = Inr None \<or>
      (\<exists>i<length cs. find_conn cs connId = Inr (Some i))"
    by simp
  with c show ?case
    by (auto simp: raise_or_def)
qed

lemma has_key_dict_update:
  "has_key (dict_update kvs kwargs) k \<longleftrightarrow> has_key kvs k \<or> has_key kwargs k"
  by (induction kvs kwargs rule: dict_update.induct) (auto simp: has_key_setitem, auto simp: has_key_def)

lemma store_ok_data_groups:
  "store_ok m \<Longrightarrow> has_key g DEFAULT_GROUP \<Longrightarrow> distinct (map fst g) \<Longrightarrow>
   \<forall>kv\<in>set g. is_conn_list (snd kv) \<Longrightarrow>
   store_ok (m\<lparr>data := (data m)\<lparr>groups := JObj g, active_group := a\<rparr>\<rparr>)"
  by (simp add: store_ok_iff extras_ok_def)

lemma setCloseOnConnect_ok: "store_ok m \<Longrightarrow> store_ok (setCloseOnConnect ok v m)"
  by (simp add: setCloseOnConnect_def store_ok_iff extras_ok_def)

lemma setActiveGroup_ok:
  assumes "store_ok m"
  shows "\<exists>m'. setActiveGroup ok n m = Inr m' \<and> store_ok m'"
proof -
  from assms obtain g where g: "groups (data m) = JObj g"
    by (auto simp: store_ok_iff)
  from assms have "store_ok (m\<lparr>data := (data m)\<lparr>active_group := JStr n\<rparr>\<rparr>)"
    by (simp add: store_ok_iff extras_ok_def)
  with assms g show ?thesis
    by (simp add: setActiveGroup_def raise_or_def)
qed

lemma createGroup_ok:
  assumes "store_ok m"
  shows "\<exists>r m'. createGroup ok n m = Inr (r, m') \<and> store_ok m'"
proof -
  from assms obtain g where g: "groups (data m) = JObj g" "has_key g DEFAULT_GROUP"
      "distinct (map fst g)" "\<forall>kv\<in>set g. is_conn_list (snd kv)"
    by (auto simp: store_ok_iff)
  have "is_conn_list (JArr [])"
    by (simp add: is_conn_list_iff)
  with g assms have "store_ok (set_groups m (JObj (setitem g n (JArr []))))"
    by (intro store_ok_set_groups conns_setitem distinct_setitem) (simp_all add: has_key_setitem)
  with assms g show ?thesis
    by (auto simp: createGroup_def raise_or_def)
qed

lemma renameGroup_ok:
  assumes "store_ok m"
  shows "\<exists>r m'. renameGroup ok old new m = Inr (r, m') \<and> store_ok m'"
proof (cases "old \<noteq> DEFAULT_GROUP \<and> (\<exists>g. groups (data m) = JObj g \<and> has_key g old \<and> \<not> has_key g new)")
  case False
  from assms obtain g where g: "groups (data m) = JObj g"
    by (auto simp: store_ok_iff)
  with False have "renameGroup ok old new m = Inr (False, m)"
    by (auto simp: renameGroup_def raise_or_def)
  with assms show ?thesis by blast
next
  case True
  from assms True obtain g where g: "groups (data m) = JObj g" "has_key g DEFAULT_GROUP"
      "distinct (map fst g)" "\<forall>kv\<in>set g. is_conn_list (snd kv)" "has_key g old" "\<not> has_key g new"
    by (auto simp: store_ok_iff)
  from g(5) obtain v where v: "map_of g old = Some v"
    by (auto simp: has_key_map_of)
  let ?g2 = "setitem (delitem g old) new v"
  let ?m' = "m\<lparr>data := (data m)
                \<lparr>groups := JObj ?g2,
                 active_group := (if active_group (data m) = JStr old then JStr new
                                  else active_group (data m))\<rparr>\<rparr>"
  have r: "renameGroup ok old new m = Inr (True, saveConfig ok ?m')"
    using True g v by (simp add: renameGroup_def raise_or_def)
  from g v have "is_conn_list v"
    by (blast intro: conns_lookup)
  with g True assms have "store_ok ?m'"
    by (intro store_ok_data_groups conns_setitem conns_delitem distinct_setitem distinct_delitem)
       (auto simp: has_key_setitem has_key_delitem)
  with r show ?thesis by auto
qed

lemma deleteGroup_ok:
  assumes "store_ok m"
  shows "\<exists>r m'. deleteGroup ok n mv m = Inr (r, m') \<and> store_ok m'"
proof (cases "n \<noteq> DEFAULT_GROUP \<and> (\<exists>g. groups (data m) = JObj g \<and> has_key g n)")
  case False
  from assms obtain g where g: "groups (data m) = JObj g"
    by (auto simp: store_ok_iff)
  with False have "deleteGroup ok n mv m = Inr (False, m)"
    by (auto simp: deleteGroup_def raise_or_def)
  with assms show ?thesis by blast
next
  case True
  from assms True obtain g where g: "groups (data m) = JObj g" "has_key g DEFAULT_GROUP"
      "distinct (map fst g)" "\<forall>kv\<in>set g. is_conn_list (snd kv)" "has_key g n"
    by (auto simp: store_ok_iff)
  from g obtain xs ds where v: "map_of g n = Some (JArr xs)" "map_of g DEFAULT_GROUP = Some (JArr ds)"
      "\<forall>c\<in>set xs. has_id c" "\<forall>c\<in>set ds. has_id c"
    by (metis conns_lookup has_key_map_of is_conn_list_iff not_None_eq)
  let ?g1 = "if mv then setitem g DEFAULT_GROUP (JArr (ds @ xs)) else g"
  let ?m' = "m\<lparr>data := (data m)
              \<lparr>groups := JObj (delitem ?g1 n),
               active_group := (if active_group (data m) = JStr n then JStr DEFAULT_GROUP
                                else active_group (data m))\<rparr>\<rparr>"
  have r: "deleteGroup ok n mv m = Inr (True, saveConfig ok ?m')"
    using True g v by (simp add: deleteGroup_def raise_or_def has_key_setitem)
  have "is_conn_list (JArr (ds @ xs))"
    using v by (auto simp: is_conn_list_iff)
  with g have g1: "has_key ?g1 DEFAULT_GROUP" "distinct (map fst ?g1)"
      "\<forall>kv\<in>set ?g1. is_conn_list (snd kv)"
    using conns_setitem [of g "JArr (ds @ xs)" DEFAULT_GROUP]
    by (simp_all add: has_key_setitem distinct_setitem)
  have "store_ok ?m'"
  proof (rule store_ok_data_groups [OF assms])
    show "has_key (delitem ?g1 n) DEFAULT_GROUP"
      using g1(1) True by (auto simp: has_key_delitem)
    show "distinct (map fst (delitem ?g1 n))"
      using g1(2) by (rule distinct_delitem)
    show "\<forall>kv\<in>set (delitem ?g1 n). is_conn_list (snd kv)"
      using g1(3) by (rule conns_delitem)
  qed
  with r show ?thesis by auto
qed

lemma store_ok_replace_list:
  assumes "store_ok m" and "groups (data m) = JObj g" and "has_key g n"
    and "\<forall>c\<in>set ys. has_id c"
  shows "store_ok (set_groups m (JObj (setitem g n (JArr ys))))"
proof -
  from assms have g: "has_key g DEFAULT_GROUP" "distinct (map fst g)"
      "\<forall>kv\<in>set g. is_conn_list (snd kv)"
    by (auto simp: store_ok_iff)
  from assms(4) have "is_conn_list (JArr ys)"
    by (simp add: is_conn_list_iff)
  with g assms(1) show ?thesis
    by (intro store_ok_set_groups conns_setitem distinct_setitem) (simp_all add: has_key_setitem)
qed

lemma store_ok_group_list:
  assumes "store_ok m" and "groups (data m) = JObj g" and "has_key g n"
  shows "\<exists>xs. map_of g n = Some (JArr xs) \<and> (\<forall>c\<in>set xs. has_id c)"
proof -
  from assms obtain v where v: "map_of g n = Some v"
    by (auto simp: has_key_map_of)
  from assms have "\<forall>kv\<in>set g. is_conn_list (snd kv)"
    by (auto simp: store_ok_iff)
  with v have "is_conn_list v"
    by (blast intro: conns_lookup)
  with v show ?thesis
    by (auto simp: is_conn_list_iff)
qed

lemma addConnection_ok:
  assumes "store_ok m"
  shows "\<exists>r m'. addConnection ok newId n nm hst ky prt md sh m = Inr (r, m') \<and> store_ok m'"
proof -
  from assms obtain g where g: "groups (data m) = JObj g"
    by (auto simp: store_ok_iff)
  show ?thesis
  proof (cases "has_key g n")
    case False
    with g have "addConnection ok newId n nm hst ky prt md sh m = Inr (None, m)"
      by (simp add: addConnection_def raise_or_def)
    with assms show ?thesis by blast
  next
    case True
    from store_ok_group_list [OF assms g True] obtain xs where
      xs: "map_of g n = Some (JArr xs)" "\<forall>c\<in>set xs. has_id c"
      by blast
    let ?e = "JObj [(''id'', JStr newId), (''name'', JStr nm), (''host'', JStr hst),
                    (''key'', JStr ky), (''port'', JInt prt), (''mode'', JStr md),
                    (''selfHosted'', JBool sh)]"
    have r: "addConnection ok newId n nm hst ky prt md sh m =
        Inr (Some newId, saveConfig ok (set_groups m (JObj (setitem g n (JArr (xs @ [?e]))))))"
      using g True xs by (simp add: addConnection_def raise_or_def)
    have "has_id ?e"
      by (simp add: has_id_iff has_key_def)
    with xs have "\<forall>c\<in>set (xs @ [?e]). has_id c"
      by auto
    from store_ok_replace_list [OF assms g True this] r show ?thesis
      by auto
  qed
qed

lemma updateConnection_ok:
  assumes "store_ok m"
  shows "\<exists>r m'. updateConnection ok n cid kwargs m = Inr (r, m') \<and> store_ok m'"
proof -
  from assms obtain g where g: "groups (data m) = JObj g"
    by (auto simp: store_ok_iff)
  show ?thesis
  proof (cases "has_key g n")
    case False
    with g have "updateConnection ok n cid kwargs m = Inr (False, m)"
      by (simp add: updateConnection_def raise_or_def)
    with assms show ?thesis by blast
  next
    case True
    from store_ok_group_list [OF assms g True] obtain xs where
      xs: "map_of g n = Some (JArr xs)" "\<forall>c\<in>set xs. has_id c"
      by blast
    from find_conn_total [OF xs(2), of cid]
    show ?thesis
    proof
      assume "find_conn xs cid = Inr None"
      with g True xs have "updateConnection ok n cid kwargs m = Inr (False, m)"
        by (simp add: updateConnection_def raise_or_def)
      with assms show ?thesis by blast
    next
      assume "\<exists>i<length xs. find_conn xs cid = Inr (Some i)"
      then obtain i where i: "i < length xs" "find_conn xs cid = Inr (Some i)"
        by blast
      with xs have "has_id (xs ! i)"
        by simp
      then obtain kvs where kvs: "xs ! i = JObj kvs" "has_key kvs ''id''"
        by (auto simp: has_id_iff)
      let ?c = "JObj (dict_update kvs kwargs)"
      have r: "updateConnection ok n cid kwargs m =
          Inr (True, saveConfig ok (set_groups m (JObj (setitem g n (JArr (xs[i := ?c]))))))"
        using g True xs i kvs by (simp add: updateConnection_def raise_or_def)
      from kvs have "has_id ?c"
        by (simp add: has_id_iff has_key_dict_update)
      with xs have "\<forall>c\<in>set (xs[i := ?c]). has_id c"
        using set_update_subset_insert [of xs i ?c] by auto
      from store_ok_replace_list [OF assms g True this] r show ?thesis
        by auto
    qed
  qed
qed

lemma deleteConnection_ok:
  assumes "store_ok m"
  shows "\<exists>r m'. deleteConnection ok n cid m = Inr (r, m') \<and> store_ok m'"
proof -
  from assms obtain g where g: "groups (data m) = JObj g"
    by (auto simp: store_ok_iff)
  show ?thesis
  proof (cases "has_key g n")
    case False
    with g have "deleteConnection ok n cid m = Inr (False, m)"
      by (simp add: deleteConnection_def raise_or_def)
    with assms show ?thesis by blast
  next
    case True
    from store_ok_group_list [OF assms g True] obtain xs where
      xs: "map_of g n = Some (JArr xs)" "\<forall>c\<in>set xs. has_id c"
      by blast
    from find_conn_total [OF xs(2), of cid]
    show ?thesis
    proof
      assume "find_conn xs cid = Inr None"
      with g True xs have "deleteConnection ok n cid m = Inr (False, m)"
        by (simp add: deleteConnection_def raise_or_def)
      with assms show ?thesis by blast
    next
      assume "\<exists>i<length xs. find_conn xs cid = Inr (Some i)"
      then obtain i where i: "i < length xs" "find_conn xs cid = Inr (Some i)"
        by blast
      let ?ys = "take i xs @ drop (Suc i) xs"
      have r: "deleteConnection ok n cid m =
          Inr (True, saveConfig ok (set_groups m (JObj (setitem g n (JArr ?ys)))))"
        using g True xs i by (simp add: deleteConnection_def raise_or_def)
      from xs have "\<forall>c\<in>set ?ys. has_id c"
        by (auto dest: in_set_takeD in_set_dropD)
      from store_ok_replace_list [OF assms g True this] r show ?thesis
        by auto
    qed
  qed
qed

lemma moveConnection_ok:
  assumes "store_ok m"
  shows "\<exists>r m'. moveConnection ok n cid dir m = Inr (r, m') \<and> store_ok m'"
proof -
  from assms obtain g where g: "groups (data m) = JObj g"
    by (auto simp: store_ok_iff)
  show ?thesis
  proof (cases "has_key g n")
    case False
    with g have "moveConnection ok n cid dir m = Inr (False, m)"
      by (simp add: moveConnection_def raise_or_def)
    with assms show ?thesis by blast
  next
    case True
    from store_ok_group_list [OF assms g True] obtain xs where
      xs: "map_of g n = Some (JArr xs)" "\<forall>c\<in>set xs. has_id c"
      by blast
    from find_conn_total [OF xs(2), of cid]
    show ?thesis
    proof
      assume "find_conn xs cid = Inr None"
      with g True xs have "moveConnection ok n cid dir m = Inr (False, m)"
        by (simp add: moveConnection_def raise_or_def)
      with assms show ?thesis by blast
    next
      assume "\<exists>i<length xs. find_conn xs cid = Inr (Some i)"
      then obtain i where i: "i < length xs" "find_conn xs cid = Inr (Some i)"
        by blast
      show ?thesis
      proof (cases "0 \<le> int i + dir \<and> int i + dir < int (length xs)")
        case False
        with g True xs i have "moveConnection ok n cid dir m = Inr (False, m)"
          by (simp add: moveConnection_def raise_or_def Let_def)
        with assms show ?thesis by blast
      next
        case inb: True
        let ?j = "nat (int i + dir)"
        let ?ys = "xs[i := xs ! ?j, ?j := xs ! i]"
        from inb have j: "?j < length xs" by linarith
        have r: "moveConnection ok n cid dir m =
            Inr (True, saveConfig ok (set_groups m (JObj (setitem g n (JArr ?ys)))))"
          using g True xs i inb by (simp add: moveConnection_def raise_or_def Let_def)
        from i j have "set ?ys \<subseteq> set xs"
          by (intro set_update_subsetI) simp_all
        with xs have "\<forall>c\<in>set ?ys. has_id c"
          by blast
        from store_ok_replace_list [OF assms g True this] r show ?thesis
          by auto
      qed
    qed
  qed
qed

lemma step_ok:
  assumes "store_ok m"
  shows "\<exists>m'. step ok x m = Inr m' \<and> store_ok m'"
proof (cases x)
  case (SetCloseOnConnect v)
  with setCloseOnConnect_ok [OF assms] show ?thesis by simp
next
  case (SetActiveGroup n)
  with setActiveGroup_ok [OF assms] show ?thesis by simp
next
  case (CreateGroup n)
  with createGroup_ok [OF assms, of ok n] show ?thesis by auto
next
  case (RenameGroup old new)
  with renameGroup_ok [OF assms, of ok old new] show ?thesis by auto
next
  case (DeleteGroup n mv)
  with deleteGroup_ok [OF assms, of ok n mv] show ?thesis by auto
next
  case (AddConnection newId n nm hst ky prt md sh)
  with addConnection_ok [OF assms, of ok newId n nm hst ky prt md sh] show ?thesis by auto
next
  case (UpdateConnection n cid kwargs)
  with updateConnection_ok [OF assms, of ok n cid kwargs] show ?thesis by auto
next
  case (DeleteConnection n cid)
  with deleteConnection_ok [OF assms, of ok n cid] show ?thesis by auto
next
  case (MoveConnection n cid dir)
  with moveConnection_ok [OF assms, of ok n cid dir] show ?thesis by auto
qed

lemma run_ok: "store_ok m \<Longrightarrow> \<exists>m'. run xs m = Inr m' \<and> store_ok m'"
proof (induction xs arbitrary: m)
  case Nil
  then show ?case by simp
next
  case (Cons a xs)
  obtain ok x where a: "a = (ok, x)" by (cases a)
  from step_ok [OF Cons.prems, of ok x] obtain m1 where
    m1: "step ok x m = Inr m1" "store_ok m1"
    by blast
  from Cons.IH [OF m1(2)] m1(1) a show ?case
    by (simp add: raise_or_def)
qed

lemma store_ok_skeleton: "store_ok \<lparr>data = getDefaultData, disk = f\<rparr>"
  by (simp add: store_ok_def extras_ok_def getDefaultData_def has_key_def is_conn_list_def)

text \<open>
  The data that \<^verbatim>\<open>loadConfig\<close> leaves in a fresh skeleton when it returns normally
  meets the two conditions of the round trip.
\<close>

lemma extras_ok_data_setitem: "extras_ok d \<Longrightarrow> extras_ok (data_setitem d k v)"
  by (auto simp: extras_ok_def data_setitem_def distinct_setitem has_key_setitem)

lemma extras_ok_update_data: "extras_ok d \<Longrightarrow> extras_ok (update_data d kvs)"
  by (induction d kvs rule: update_data.induct) (simp_all add: extras_ok_data_setitem)

lemma loaded_data_ok:
  assumes "loadConfig f getDefaultData = (None, d)"
  shows "extras_ok d \<and> py_contains (groups d) DEFAULT_GROUP = Inr True"
proof (cases f)
  case (Document loaded)
  let ?d1 = "update_data getDefaultData loaded"
  have e: "extras_ok ?d1"
    by (rule extras_ok_update_data) (simp add: extras_ok_def getDefaultData_def has_key_def)
  show ?thesis
  proof (cases "py_contains (groups ?d1) DEFAULT_GROUP")
    case (Inl err)
    with assms Document show ?thesis
      by (simp add: loadConfig_def Let_def)
  next
    case (Inr b)
    show ?thesis
    proof (cases b)
      case True
      with assms Document Inr e show ?thesis
        by (auto simp: loadConfig_def Let_def)
    next
      case False
      with assms Document Inr obtain g where
        g: "py_setitem (groups ?d1) DEFAULT_GROUP (JArr []) = Inr g" "d = ?d1\<lparr>groups := g\<rparr>"
        by (auto simp: loadConfig_def Let_def split: sum.splits)
      from g(1) have "py_contains g DEFAULT_GROUP = Inr True"
        by (cases "groups ?d1") (auto simp: has_key_setitem)
      with g(2) e show ?thesis
        by (simp add: extras_ok_def)
    qed
  qed
qed (use assms in \<open>auto simp: loadConfig_def extras_ok_def getDefaultData_def has_key_def\<close>)

text \<open>
  Claim C2. Whatever operations are run on a manager that starts from the skeleton (group
  operations, connection operations, the two setters; each with its save succeeding or
  failing), none raises, and afterwards the groups are a dict in which \<^verbatim>\<open>"Default"\<close>
  is a key and holds a list. On any manager, \<^verbatim>\<open>renameGroup("Default", x)\<close> and
  \<^verbatim>\<open>deleteGroup("Default", flag)\<close> return false and leave the data and the file as
  they were.
\<close>

theorem default_group_invariant:
  "(\<exists>m' g ds. run xs \<lparr>data = getDefaultData, disk = f\<rparr> = Inr m' \<and>
       groups (data m') = JObj g \<and> has_key g DEFAULT_GROUP \<and>
       map_of g DEFAULT_GROUP = Some (JArr ds)) \<and>
   renameGroup ok DEFAULT_GROUP x m = Inr (False, m) \<and>
   deleteGroup ok DEFAULT_GROUP mv m = Inr (False, m)"
proof (intro conjI)
  from run_ok [OF store_ok_skeleton, of xs f] obtain m' where
    m': "run xs \<lparr>data = getDefaultData, disk = f\<rparr> = Inr m'" "store_ok m'"
    by blast
  then obtain g where g: "groups (data m') = JObj g" "has_key g DEFAULT_GROUP"
    by (auto simp: store_ok_iff)
  from store_ok_group_list [OF m'(2) g] m'(1) g
  show "\<exists>m' g ds. run xs \<lparr>data = getDefaultData, disk = f\<rparr> = Inr m' \<and>
       groups (data m') = JObj g \<and> has_key g DEFAULT_GROUP \<and>
       map_of g DEFAULT_GROUP = Some (JArr ds)"
    by blast
  show "renameGroup ok DEFAULT_GROUP x m = Inr (False, m)"
    by (simp add: renameGroup_def)
  show "deleteGroup ok DEFAULT_GROUP mv m = Inr (False, m)"
    by (simp add: deleteGroup_def)
qed

text \<open>
  The theorem at a run that creates a group, adds a connection to it, activates it with a
  failing save, tries to rename and to delete the default group, and deletes the new group.
\<close>

theorem default_group_invariant_witness:
  "(case run [(True, CreateGroup ''Work''),
              (True, AddConnection ''id1'' ''Work'' ''Home PC'' ''example.org'' ''1234567'' 6837
                 ''leader'' False),
              (False, SetActiveGroup ''Work''),
              (True, RenameGroup ''Default'' ''Main''),
              (True, DeleteGroup ''Default'' True),
              (True, DeleteGroup ''Work'' True)]
        \<lparr>data = getDefaultData, disk = Missing\<rparr> of
      Inl e \<Rightarrow> False
    | Inr m' \<Rightarrow> getGroups m' = Inr [''Default''] \<and>
        renameGroup True ''Default'' ''Main'' m' = Inr (False, m') \<and>
        deleteGroup True ''Default'' False m' = Inr (False, m'))"
proof -
  let ?xs = "[(True, CreateGroup ''Work''),
              (True, AddConnection ''id1'' ''Work'' ''Home PC'' ''example.org'' ''1234567'' 6837
                 ''leader'' False),
              (False, SetActiveGroup ''Work''),
              (True, RenameGroup ''Default'' ''Main''),
              (True, DeleteGroup ''Default'' True),
              (True, DeleteGroup ''Work'' True)]"
  have g: "map_sum id getGroups (run ?xs \<lparr>data = getDefaultData, disk = Missing\<rparr>) =
      Inr (Inr [''Default''])"
    by (simp add: raise_or_def createGroup_def addConnection_def setActiveGroup_def
        renameGroup_def deleteGroup_def getGroups_def saveConfig_def set_groups_def
        getDefaultData_def DEFAULT_GROUP_def has_key_def delitem_def)
  from default_group_invariant [of ?xs Missing] obtain m' where
    m': "run ?xs \<lparr>data = getDefaultData, disk = Missing\<rparr> = Inr m'"
    by blast
  from default_group_invariant [of ?xs Missing True "''Main''" m' False]
  have "renameGroup True ''Default'' ''Main'' m' = Inr (False, m') \<and>
        deleteGroup True ''Default'' False m' = Inr (False, m')"
    by (simp add: DEFAULT_GROUP_def)
  with m' g show ?thesis
    by simp
qed

end
